theory Spec2Isabelle
  imports
    Complex_Main
    "HOL-Library.AList"
    "HOL-Library.Multiset"
    "HOL-Library.Char_ord"
    "HOL-Library.List_Lexorder"
    "HOL-Library.Product_Lexorder"
begin

section \<open>Data model\<close>

text \<open>
  The three scripts (\<^verbatim>\<open>app.py\<close>, \<^verbatim>\<open>data_analytics.py\<close>, \<^verbatim>\<open>generate_report.py\<close>)
  work on pandas data frames read from CSV files. A cell is a missing value
  (\<open>NaN\<close>, or \<open>NaT\<close> in a datetime column), a finite number, an infinity (\<open>Inf True\<close> is
  the positive one), a text, a boolean, a timestamp without time zone (\<open>TS\<close>, the instant
  in nanoseconds) or a timestamp with a UTC offset (\<open>TSZ\<close>, the instant and the offset in
  minutes). A finite number is the rational that the machine number stands for; how the
  library adds, divides, rounds and sorts machine numbers is not fixed here but taken as
  a parameter, see below.

  A data frame is the list of its column names and the list of its rows; a row
  associates column names with cells, in the manner of the list-of-records notation.
  A dictionary of data frames (\<^verbatim>\<open>dfs\<close>, \<^verbatim>\<open>data\<close>) is an association list from table name to
  data frame.
\<close>

datatype cell = NaN | NaT | Num rat | Inf bool | Str string | Bool bool | TS int | TSZ int int

type_synonym row = "(string \<times> cell) list"

record df =
  columns :: "string list"
  rows :: "row list"

type_synonym dfs = "(string \<times> df) list"

datatype error =
  FileNotFoundError string
  | KeyError string
  | TypeError
  | AttributeError
  | ValueError

text \<open>The cell of a row under a column name; a row that lacks the column has no value there.\<close>

definition cell_of :: "row \<Rightarrow> string \<Rightarrow> cell" where
  "cell_of r c = (case map_of r c of Some v \<Rightarrow> v | None \<Rightarrow> NaN)"

text \<open>\<^verbatim>\<open>pd.isna\<close>: the missing markers.\<close>

fun isna :: "cell \<Rightarrow> bool" where
  "isna NaN = True"
| "isna NaT = True"
| "isna _ = False"

text \<open>Sequencing of computations that may raise.\<close>

definition bind :: "error + 'a \<Rightarrow> ('a \<Rightarrow> error + 'b) \<Rightarrow> error + 'b" where
  "bind m f = (case m of Inl e \<Rightarrow> Inl e | Inr x \<Rightarrow> f x)"

text \<open>\<^verbatim>\<open>dfs[name]\<close>: a missing key raises \<^verbatim>\<open>KeyError\<close>.\<close>

definition getitem :: "dfs \<Rightarrow> string \<Rightarrow> error + df" where
  "getitem ds name = (case map_of ds name of None \<Rightarrow> Inl (KeyError name) | Some d \<Rightarrow> Inr d)"

text \<open>\<^verbatim>\<open>df[col]\<close>: the column as a series; an unknown column raises \<^verbatim>\<open>KeyError\<close>.\<close>

definition get_col :: "df \<Rightarrow> string \<Rightarrow> error + cell list" where
  "get_col d c =
     (if c \<in> set (columns d) then Inr (map (\<lambda>r. cell_of r c) (rows d)) else Inl (KeyError c))"

text \<open>
  \<^verbatim>\<open>df[col] = series\<close>: an existing column is overwritten in place, a new one is
  appended as the last column. The frame is changed in place: every holder of the frame
  sees the new column.
\<close>

definition set_col :: "string \<Rightarrow> cell list \<Rightarrow> df \<Rightarrow> df" where
  "set_col c vs d =
     \<lparr> columns = (if c \<in> set (columns d) then columns d else columns d @ [c]),
       rows = map (\<lambda>(r, v). AList.update c v r) (zip (rows d) vs) \<rparr>"

section \<open>The library\<close>

text \<open>
  What pandas and numpy compute inside a call is library code, not code of the scripts.
  It is a parameter of the development, so that no theorem rests on a guess about it:
  \<^item> \<open>num_of\<close> is the number \<^verbatim>\<open>pd.to_numeric\<close> reads from a non-numeric cell, and
    \<open>None\<close> says that the cell does not parse;
  \<^item> \<open>to_datetime\<close> is \<^verbatim>\<open>pd.to_datetime(series, errors='coerce')\<close> on a whole column:
    the library looks at the column as a whole (format, time zones), and it may raise;
  \<^item> \<open>month_of\<close> is what \<^verbatim>\<open>.dt.to_period('M').astype(str)\<close> makes of a cell of a
    datetime column;
  \<^item> \<open>series_sum\<close> and \<open>series_mean\<close> are \<^verbatim>\<open>series.sum()\<close> and \<^verbatim>\<open>series.mean()\<close>,
    \<open>group_sum_of\<close> and \<open>group_mean_of\<close> the sum and the mean that \<^verbatim>\<open>groupby\<close> computes
    from the values of one group; sums of machine numbers round, wrap around and, on
    text, concatenate, and the two kinds of sum need not add in the same order;
  \<^item> \<open>arith\<close> is the arithmetic of two cells in \<^verbatim>\<open>series + series\<close>, \<^verbatim>\<open>-\<close>, \<^verbatim>\<open>*\<close> and
    \<^verbatim>\<open>/\<close>;
  \<^item> \<open>sort_rows\<close> is the order in which \<^verbatim>\<open>df.sort_values(by, ascending=asc)\<close> returns
    the rows, and \<open>sort_series\<close> the order in which \<^verbatim>\<open>series.sort_values(ascending=asc)\<close>
    returns the entries of a series, both with the sort kind of the library's choice;
    no call of the scripts names a sort kind.
\<close>

datatype binop = Add | Sub | Mul | Div

record conv =
  num_of :: "cell \<Rightarrow> rat option"
  to_datetime :: "cell list \<Rightarrow> error + cell list"
  month_of :: "cell \<Rightarrow> cell"
  series_sum :: "cell list \<Rightarrow> error + cell"
  group_sum_of :: "cell list \<Rightarrow> error + cell"
  series_mean :: "cell list \<Rightarrow> error + cell"
  group_mean_of :: "cell list \<Rightarrow> error + cell"
  arith :: "binop \<Rightarrow> cell \<Rightarrow> cell \<Rightarrow> error + cell"
  sort_rows :: "string \<Rightarrow> bool \<Rightarrow> row list \<Rightarrow> row list"
  sort_series :: "bool \<Rightarrow> (cell \<times> cell) list \<Rightarrow> (cell \<times> cell) list"

section \<open>Normalization (ETL)\<close>

text \<open>
  \<^verbatim>\<open>pd.to_numeric(series, errors='coerce')\<close>, cell by cell: numbers and booleans are
  kept, a missing value stays missing, anything else is parsed, and what does not parse
  becomes \<open>NaN\<close>.
\<close>

fun to_numeric_cell :: "conv \<Rightarrow> cell \<Rightarrow> cell" where
  "to_numeric_cell cv (Num r) = Num r"
| "to_numeric_cell cv (Inf s) = Inf s"
| "to_numeric_cell cv (Bool b) = Bool b"
| "to_numeric_cell cv NaN = NaN"
| "to_numeric_cell cv c = (case num_of cv c of Some r \<Rightarrow> Num r | None \<Rightarrow> NaN)"

definition to_numeric :: "conv \<Rightarrow> cell list \<Rightarrow> cell list" where
  "to_numeric cv s = map (to_numeric_cell cv) s"

text \<open>\<^verbatim>\<open>series.fillna(v)\<close>.\<close>

definition fillna_cell :: "cell \<Rightarrow> cell \<Rightarrow> cell" where
  "fillna_cell v c = (if isna c then v else c)"

definition fillna :: "cell \<Rightarrow> cell list \<Rightarrow> cell list" where
  "fillna v s = map (fillna_cell v) s"

text \<open>
  \<^verbatim>\<open>if col in df.columns: df[col] = pd.to_datetime(df[col], errors='coerce')\<close>.
  The library returns one value for each value of the column; pandas refuses to assign a
  column of another length.
\<close>

definition convert_date :: "conv \<Rightarrow> string \<Rightarrow> df \<Rightarrow> error + df" where
  "convert_date cv col d =
     (case get_col d col of
        Inl e \<Rightarrow> Inr d
      | Inr s \<Rightarrow>
          bind (to_datetime cv s) (\<lambda>s'.
            if length s' = length s then Inr (set_col col s' d) else Inl ValueError))"

text \<open>
  \<^verbatim>\<open>df[col] = pd.to_numeric(df[col], errors='coerce').fillna(0)\<close>; reading a column
  that the frame does not have raises \<^verbatim>\<open>KeyError\<close>.
\<close>

definition convert_numeric :: "conv \<Rightarrow> string \<Rightarrow> df \<Rightarrow> error + df" where
  "convert_numeric cv col d =
     bind (get_col d col) (\<lambda>s. Inr (set_col col (fillna (Num 0) (to_numeric cv s)) d))"

text \<open>\<^verbatim>\<open>if name in dfs: ...\<close> with a body that changes the frame \<^verbatim>\<open>dfs[name]\<close> in place.\<close>

definition if_loaded :: "string \<Rightarrow> (df \<Rightarrow> error + df) \<Rightarrow> dfs \<Rightarrow> error + dfs" where
  "if_loaded name body ds =
     (case map_of ds name of
        None \<Rightarrow> Inr ds
      | Some d \<Rightarrow> bind (body d) (\<lambda>d'. Inr (AList.update name d' ds)))"

text \<open>\<^verbatim>\<open>data_analytics.py\<close>, \<^verbatim>\<open>etl_process\<close>: the table of date columns.\<close>

definition date_cols :: "(string \<times> string list) list" where
  "date_cols =
     [(''projects'', [''start_date'', ''end_date'']),
      (''assignments'', [''start_date'', ''end_date'']),
      (''expenses'', [''date'']),
      (''milestones'', [''planned_start'', ''planned_end'']),
      (''purchase_orders'', [''issue_date'']),
      (''tasks'', [''start_date'', ''end_date'']),
      (''timesheets'', [''date'']),
      (''employees'', [''joining_date''])]"

text \<open>
  The loop \<^verbatim>\<open>for df_name, cols in date_cols.items(): if df_name in dfs: for col in cols: ...\<close>
\<close>

fun convert_dates :: "conv \<Rightarrow> string list \<Rightarrow> df \<Rightarrow> error + df" where
  "convert_dates cv [] d = Inr d"
| "convert_dates cv (col # cols) d = bind (convert_date cv col d) (convert_dates cv cols)"

fun date_loop :: "conv \<Rightarrow> (string \<times> string list) list \<Rightarrow> dfs \<Rightarrow> error + dfs" where
  "date_loop cv [] ds = Inr ds"
| "date_loop cv ((df_name, cols) # rest) ds =
     bind (if_loaded df_name (convert_dates cv cols) ds) (date_loop cv rest)"

definition date_conversions :: "conv \<Rightarrow> dfs \<Rightarrow> error + dfs" where
  "date_conversions cv ds = date_loop cv date_cols ds"

text \<open>\<^verbatim>\<open>etl_process(dfs)\<close>: date conversions, then the numeric conversions in source order.\<close>

definition etl_process :: "conv \<Rightarrow> dfs \<Rightarrow> error + dfs" where
  "etl_process cv ds =
     bind (date_conversions cv ds) (\<lambda>ds.
     bind (if_loaded ''projects''
             (\<lambda>d. bind (convert_numeric cv ''budget_aed'' d)
                        (convert_numeric cv ''completion_percentage'')) ds) (\<lambda>ds.
     bind (if_loaded ''expenses'' (convert_numeric cv ''amount_aed'') ds) (\<lambda>ds.
     bind (if_loaded ''purchase_orders'' (convert_numeric cv ''amount_aed'') ds) (\<lambda>ds.
     if_loaded ''employees'' (convert_numeric cv ''salary_aed'') ds))))"

section \<open>Loading\<close>

text \<open>
  The files on disk: a file name has the frame that \<^verbatim>\<open>pd.read_csv\<close> reads from it, or no
  file exists under this name.
\<close>

type_synonym fs = "string \<Rightarrow> df option"

text \<open>\<^verbatim>\<open>pd.read_csv(filename)\<close> raises \<^verbatim>\<open>FileNotFoundError\<close> for a file that does not exist.\<close>

definition read_csv :: "fs \<Rightarrow> string \<Rightarrow> error + df" where
  "read_csv files filename =
     (case files filename of None \<Rightarrow> Inl (FileNotFoundError filename) | Some d \<Rightarrow> Inr d)"

text \<open>What \<^verbatim>\<open>data_analytics.load_data\<close> prints.\<close>

datatype message = Loaded string | NotFound string

definition eda_files :: "(string \<times> string) list" where
  "eda_files =
     [(''assignments'', ''assignments.csv''),
      (''clients'', ''clients.csv''),
      (''employees'', ''employees.csv''),
      (''expenses'', ''expenses.csv''),
      (''milestones'', ''project_milestones.csv''),
      (''projects'', ''projects.csv''),
      (''purchase_orders'', ''purchase_orders.csv''),
      (''risks'', ''risks.csv''),
      (''tasks'', ''tasks.csv''),
      (''timesheets'', ''timesheets.csv''),
      (''vendors'', ''vendors.csv'')]"

text \<open>
  \<^verbatim>\<open>data_analytics.load_data\<close>: each file is read when \<^verbatim>\<open>os.path.exists\<close> says it is
  there, and a warning is printed otherwise. The result is the dictionary and the printed
  lines.
\<close>

fun load_loop :: "fs \<Rightarrow> (string \<times> string) list \<Rightarrow> dfs \<times> message list \<Rightarrow> dfs \<times> message list" where
  "load_loop files [] acc = acc"
| "load_loop files ((name, filename) # rest) (ds, out) =
     (case files filename of
        Some d \<Rightarrow> load_loop files rest (AList.update name d ds, out @ [Loaded name])
      | None \<Rightarrow> load_loop files rest (ds, out @ [NotFound filename]))"

definition load_data :: "fs \<Rightarrow> dfs \<times> message list" where
  "load_data files = load_loop files eda_files ([], [])"

text \<open>\<^verbatim>\<open>generate_report.load_and_clean\<close>: the same guarded loop, silent, then the basic ETL.\<close>

definition report_files :: "(string \<times> string) list" where
  "report_files =
     [(''clients'', ''clients.csv''),
      (''employees'', ''employees.csv''),
      (''expenses'', ''expenses.csv''),
      (''projects'', ''projects.csv''),
      (''purchase_orders'', ''purchase_orders.csv''),
      (''risks'', ''risks.csv''),
      (''tasks'', ''tasks.csv''),
      (''timesheets'', ''timesheets.csv''),
      (''vendors'', ''vendors.csv'')]"

definition load_and_clean :: "conv \<Rightarrow> fs \<Rightarrow> error + dfs" where
  "load_and_clean cv files =
     bind (if_loaded ''projects'' (convert_numeric cv ''budget_aed'')
             (fst (load_loop files report_files ([], [])))) (\<lambda>ds.
     bind (if_loaded ''expenses'' (convert_numeric cv ''amount_aed'') ds) (\<lambda>ds.
     bind (if_loaded ''purchase_orders'' (convert_numeric cv ''amount_aed'') ds) (\<lambda>ds.
     if_loaded ''employees'' (convert_numeric cv ''salary_aed'') ds)))"

text \<open>
  \<^verbatim>\<open>app.load_data\<close>: ten unguarded \<^verbatim>\<open>pd.read_csv\<close> calls in this order, then the date
  conversions of the dashboard.
\<close>

definition app_files :: "(string \<times> string) list" where
  "app_files =
     [(''projects'', ''projects.csv''),
      (''employees'', ''employees.csv''),
      (''tasks'', ''tasks.csv''),
      (''clients'', ''clients.csv''),
      (''expenses'', ''expenses.csv''),
      (''timesheets'', ''timesheets.csv''),
      (''vendors'', ''vendors.csv''),
      (''risks'', ''risks.csv''),
      (''milestones'', ''project_milestones.csv''),
      (''purchase_orders'', ''purchase_orders.csv'')]"

fun read_all :: "fs \<Rightarrow> (string \<times> string) list \<Rightarrow> dfs \<Rightarrow> error + dfs" where
  "read_all files [] data = Inr data"
| "read_all files ((name, filename) # rest) data =
     bind (read_csv files filename) (\<lambda>d. read_all files rest (AList.update name d data))"

definition app_date_cols :: "(string \<times> string) list" where
  "app_date_cols =
     [(''projects'', ''start_date''),
      (''projects'', ''end_date''),
      (''expenses'', ''date''),
      (''timesheets'', ''date''),
      (''milestones'', ''planned_start''),
      (''milestones'', ''planned_end'')]"

fun app_dates :: "conv \<Rightarrow> (string \<times> string) list \<Rightarrow> dfs \<Rightarrow> error + dfs" where
  "app_dates cv [] data = Inr data"
| "app_dates cv ((name, col) # rest) data =
     bind (getitem data name) (\<lambda>d.
     bind (convert_date cv col d) (\<lambda>d'.
       app_dates cv rest (AList.update name d' data)))"

definition app_load_data :: "conv \<Rightarrow> fs \<Rightarrow> error + dfs" where
  "app_load_data cv files =
     bind (read_all files app_files []) (app_dates cv app_date_cols)"

section \<open>Ratios\<close>

text \<open>
  \<^verbatim>\<open>app.py\<close>, Financial Insights:
  \<^verbatim>\<open>utilization = (total_expenses / total_budget) * 100 if total_budget > 0 else 0\<close>
\<close>

definition utilization :: "rat \<Rightarrow> rat \<Rightarrow> rat" where
  "utilization total_expenses total_budget =
     (if total_budget > 0 then (total_expenses / total_budget) * 100 else 0)"


text \<open>
  \<^verbatim>\<open>data_analytics.py\<close>, per project:
  \<^verbatim>\<open>fin_df['budget_utilization_pct'] = (fin_df['total_actuals'] / fin_df['budget_aed']) * 100\<close>.
  This is a division of two numeric series, with no test of the divisor. Element-wise
  division by zero raises nothing: it yields an infinity, or not-a-number for \<open>0 / 0\<close>.
  The quotient of two finite numbers is given here as a value of a type of its own.
\<close>

datatype float = Finite rat | PosInf | NegInf | NaNf

definition series_div :: "rat \<Rightarrow> rat \<Rightarrow> float" where
  "series_div a b =
     (if b \<noteq> 0 then Finite (a / b)
      else if a > 0 then PosInf else if a < 0 then NegInf else NaNf)"

fun times100 :: "float \<Rightarrow> float" where
  "times100 (Finite r) = Finite (r * 100)"
| "times100 PosInf = PosInf"
| "times100 NegInf = NegInf"
| "times100 NaNf = NaNf"

definition budget_utilization_pct :: "rat \<Rightarrow> rat \<Rightarrow> float" where
  "budget_utilization_pct total_actuals budget_aed = times100 (series_div total_actuals budget_aed)"


subsection \<open>Claim C1\<close>




text \<open>
  The per-project utilization of \<^verbatim>\<open>data_analytics.py\<close> has no guard at all: a project
  with a zero budget gets an infinite or undefined utilization, not 0.
\<close>

lemma budget_utilization_pct_zero_budget:
  "budget_utilization_pct 50 0 = PosInf" "budget_utilization_pct 0 0 = NaNf"
  "budget_utilization_pct 50 200 = Finite 25"
  by (simp_all add: budget_utilization_pct_def series_div_def)

section \<open>Aggregation\<close>

text \<open>The first error of a list of results, or all the values.\<close>

fun collect :: "(error + 'a) list \<Rightarrow> error + 'a list" where
  "collect [] = Inr []"
| "collect (m # ms) = bind m (\<lambda>x. bind (collect ms) (\<lambda>xs. Inr (x # xs)))"

text \<open>
  The order in which group keys are listed (\<^verbatim>\<open>groupby\<close> sorts its keys): numbers by
  value, texts by character codes, numbers before texts.
\<close>

fun cell_rank :: "cell \<Rightarrow> nat \<times> rat \<times> string" where
  "cell_rank (Inf False) = (0, 0, [])"
| "cell_rank (Num r) = (1, r, [])"
| "cell_rank (Inf True) = (2, 0, [])"
| "cell_rank (Bool b) = (3, of_bool b, [])"
| "cell_rank (TS t) = (4, of_int t, [])"
| "cell_rank (TSZ t z) = (4, of_int t, [])"
| "cell_rank (Str s) = (5, 0, s)"
| "cell_rank NaN = (6, 0, [])"
| "cell_rank NaT = (6, 0, [])"

text \<open>
  \<^verbatim>\<open>df.groupby(key)[val].agg()\<close> for an aggregation of the library: the series of the
  aggregates of \<^verbatim>\<open>val\<close>, indexed by the distinct values of \<^verbatim>\<open>key\<close> in sorted order. With
  the default \<^verbatim>\<open>dropna=True\<close>, which is what every \<^verbatim>\<open>groupby\<close> call of the scripts uses, a
  row whose key is missing belongs to no group.
\<close>

definition group_agg ::
  "(cell list \<Rightarrow> error + cell) \<Rightarrow> string \<Rightarrow> string \<Rightarrow> df \<Rightarrow> error + (cell \<times> cell) list" where
  "group_agg agg key val d =
     bind (get_col d key) (\<lambda>ks. bind (get_col d val) (\<lambda>vs.
       let present = filter (\<lambda>(k, v). \<not> isna k) (zip ks vs);
           groups = sort_key cell_rank (remdups (map fst present))
       in collect (map (\<lambda>g. bind (agg (map snd (filter (\<lambda>(k, v). k = g) present)))
                                 (\<lambda>s. Inr (g, s))) groups)))"

text \<open>\<^verbatim>\<open>df.groupby(key)[val].sum()\<close> and \<^verbatim>\<open>df.groupby(key)[val].mean()\<close>\<close>

definition group_sum :: "conv \<Rightarrow> string \<Rightarrow> string \<Rightarrow> df \<Rightarrow> error + (cell \<times> cell) list" where
  "group_sum cv key val d = group_agg (group_sum_of cv) key val d"

definition group_mean :: "conv \<Rightarrow> string \<Rightarrow> string \<Rightarrow> df \<Rightarrow> error + (cell \<times> cell) list" where
  "group_mean cv key val d = group_agg (group_mean_of cv) key val d"

text \<open>\<^verbatim>\<open>df[col].sum()\<close> and \<^verbatim>\<open>df[col].mean()\<close>\<close>

definition column_total :: "conv \<Rightarrow> df \<Rightarrow> string \<Rightarrow> error + cell" where
  "column_total cv d col = bind (get_col d col) (series_sum cv)"

definition column_mean :: "conv \<Rightarrow> df \<Rightarrow> string \<Rightarrow> error + cell" where
  "column_mean cv d col = bind (get_col d col) (series_mean cv)"

text \<open>\<^verbatim>\<open>series.reset_index(name=name)\<close>: a grouped series as a frame of two columns.\<close>

definition series_frame :: "string \<Rightarrow> string \<Rightarrow> (cell \<times> cell) list \<Rightarrow> df" where
  "series_frame key name gs =
     \<lparr> columns = [key, name], rows = map (\<lambda>(g, s). [(key, g), (name, s)]) gs \<rparr>"

text \<open>\<^verbatim>\<open>df[[c1, c2, ...]]\<close>\<close>

definition select_cols :: "string list \<Rightarrow> df \<Rightarrow> error + df" where
  "select_cols cs d =
     (case filter (\<lambda>c. c \<notin> set (columns d)) cs of
        [] \<Rightarrow> Inr \<lparr> columns = cs, rows = map (\<lambda>r. map (\<lambda>c. (c, cell_of r c)) cs) (rows d) \<rparr>
      | c # _ \<Rightarrow> Inl (KeyError c))"

text \<open>
  \<^verbatim>\<open>left.merge(right, on=on, how=how)\<close>; \<^verbatim>\<open>how\<close> is \<^verbatim>\<open>'inner'\<close> when the call does not
  give it. The rows follow the order of the left frame; a left row is paired with every
  right row of the same key. A left row without a partner is dropped by an inner merge
  and kept, with missing values in the right columns, by a left merge. Columns that both
  frames have besides the key get the suffixes \<^verbatim>\<open>_x\<close> and \<^verbatim>\<open>_y\<close>. The key columns
  of the two frames are taken to be of one kind (the library refuses a text key against
  a numeric one).
\<close>

datatype how = Inner | Left

definition merge :: "how \<Rightarrow> string \<Rightarrow> df \<Rightarrow> df \<Rightarrow> error + df" where
  "merge h on l r =
     (if on \<notin> set (columns l) \<or> on \<notin> set (columns r) then Inl (KeyError on)
      else
        let overlap = filter (\<lambda>c. c \<noteq> on \<and> c \<in> set (columns r)) (columns l);
            lname = (\<lambda>c. if c \<in> set overlap then c @ ''_x'' else c);
            rname = (\<lambda>c. if c \<in> set overlap then c @ ''_y'' else c);
            rcols = filter (\<lambda>c. c \<noteq> on) (columns r);
            lrow = (\<lambda>a. map (\<lambda>c. (lname c, cell_of a c)) (columns l));
            rrow = (\<lambda>b. map (\<lambda>c. (rname c, cell_of b c)) rcols);
            blank = map (\<lambda>c. (rname c, NaN)) rcols;
            joined = (\<lambda>a.
              case filter (\<lambda>b. cell_of b on = cell_of a on) (rows r) of
                [] \<Rightarrow> (case h of Left \<Rightarrow> [lrow a @ blank] | Inner \<Rightarrow> [])
              | b # bs \<Rightarrow> map (\<lambda>b. lrow a @ rrow b) (b # bs))
        in Inr \<lparr> columns = map lname (columns l) @ map rname rcols,
                 rows = concat (map joined (rows l)) \<rparr>)"

text \<open>\<^verbatim>\<open>df.fillna(v)\<close> on a whole frame.\<close>

definition frame_fillna :: "cell \<Rightarrow> df \<Rightarrow> df" where
  "frame_fillna v d = d\<lparr>rows := map (map (\<lambda>(c, x). (c, fillna_cell v x))) (rows d)\<rparr>"

text \<open>\<^verbatim>\<open>series.isin(values)\<close>: the boolean mask of the cells that are among the values.\<close>

definition isin :: "cell list \<Rightarrow> cell list \<Rightarrow> bool list" where
  "isin s vals = map (\<lambda>c. c \<in> set vals) s"

text \<open>\<^verbatim>\<open>df[mask]\<close>: a new frame of the rows whose mask is true.\<close>

definition mask_rows :: "bool list \<Rightarrow> df \<Rightarrow> df" where
  "mask_rows m d = d\<lparr>rows := map fst (filter snd (zip (rows d) m))\<rparr>"

text \<open>\<^verbatim>\<open>series.unique()\<close>: the distinct cells in order of first appearance.\<close>

definition unique :: "cell list \<Rightarrow> cell list" where
  "unique s = rev (remdups (rev s))"

text \<open>\<^verbatim>\<open>df.head(n)\<close>\<close>

definition head :: "nat \<Rightarrow> df \<Rightarrow> df" where
  "head n d = d\<lparr>rows := take n (rows d)\<rparr>"

text \<open>
  \<^verbatim>\<open>series op series\<close> on two columns of one frame and \<^verbatim>\<open>series op scalar\<close>, cell by
  cell with the arithmetic of the library.
\<close>

definition col_arith :: "conv \<Rightarrow> binop \<Rightarrow> string \<Rightarrow> string \<Rightarrow> df \<Rightarrow> error + cell list" where
  "col_arith cv op a b d =
     bind (get_col d a) (\<lambda>xs. bind (get_col d b) (\<lambda>ys.
       collect (map (\<lambda>(x, y). arith cv op x y) (zip xs ys))))"

definition scalar_arith :: "conv \<Rightarrow> binop \<Rightarrow> cell list \<Rightarrow> cell \<Rightarrow> error + cell list" where
  "scalar_arith cv op xs c = collect (map (\<lambda>x. arith cv op x c) xs)"

text \<open>
  The comparisons \<^verbatim>\<open>x < 0\<close> and \<^verbatim>\<open>x > 0\<close> of a cell with the number zero: false for a
  missing number, \<^verbatim>\<open>TypeError\<close> for a text or a date.
\<close>

fun lt_zero :: "cell \<Rightarrow> error + bool" where
  "lt_zero (Num r) = Inr (r < 0)"
| "lt_zero (Inf s) = Inr (\<not> s)"
| "lt_zero (Bool b) = Inr False"
| "lt_zero NaN = Inr False"
| "lt_zero _ = Inl TypeError"

fun gt_zero :: "cell \<Rightarrow> error + bool" where
  "gt_zero (Num r) = Inr (r > 0)"
| "gt_zero (Inf s) = Inr s"
| "gt_zero (Bool b) = Inr b"
| "gt_zero NaN = Inr False"
| "gt_zero _ = Inl TypeError"

text \<open>
  \<^verbatim>\<open>series.value_counts()\<close>: how often each value that is present occurs, in the order
  in which the library sorts the counts, descending. With \<^verbatim>\<open>normalize=True\<close> the counts
  are divided by their total.
\<close>

definition value_counts :: "conv \<Rightarrow> cell list \<Rightarrow> (cell \<times> cell) list" where
  "value_counts cv s =
     (let present = filter (\<lambda>c. \<not> isna c) s
      in sort_series cv False
           (map (\<lambda>v. (v, Num (of_nat (count_list present v)))) (unique present)))"

definition map_values ::
  "(cell \<Rightarrow> error + cell) \<Rightarrow> (cell \<times> cell) list \<Rightarrow> error + (cell \<times> cell) list" where
  "map_values f gs = collect (map (\<lambda>(g, v). bind (f v) (\<lambda>w. Inr (g, w))) gs)"

definition value_percent :: "conv \<Rightarrow> cell list \<Rightarrow> error + (cell \<times> cell) list" where
  "value_percent cv s =
     (let total = Num (of_nat (length (filter (\<lambda>c. \<not> isna c) s)))
      in bind (map_values (\<lambda>c. arith cv Div c total) (value_counts cv s))
           (map_values (\<lambda>c. arith cv Mul c (Num 100))))"

text \<open>\<^verbatim>\<open>df.sort_values(by, ascending=asc)\<close>, in the order the library gives the rows.\<close>

definition sort_values :: "conv \<Rightarrow> string \<Rightarrow> bool \<Rightarrow> df \<Rightarrow> error + df" where
  "sort_values cv by asc d =
     bind (get_col d by) (\<lambda>ks. Inr (d\<lparr>rows := sort_rows cv by asc (rows d)\<rparr>))"

text \<open>
  A stable sort of the rows by a column: the rows with a key are sorted by a stable sort
  on the keys, after a reversal of the rows and followed by one for the descending
  direction, so that rows of equal keys keep their order in both directions; the rows
  without a key follow in their order.
\<close>

definition stable_rows :: "string \<Rightarrow> bool \<Rightarrow> row list \<Rightarrow> row list" where
  "stable_rows by asc rs =
     (let present = filter (\<lambda>r. \<not> isna (cell_of r by)) rs;
          missing = filter (\<lambda>r. isna (cell_of r by)) rs;
          rank = (\<lambda>r. cell_rank (cell_of r by))
      in (if asc then sort_key rank present else rev (sort_key rank (rev present))) @ missing)"

text \<open>
  \<^verbatim>\<open>df.nlargest(n, col)\<close>, with the default \<^verbatim>\<open>keep='first'\<close>: the first \<open>n\<close> rows in
  descending order of the column, rows of equal value in their original order, rows
  without a value last. A text column is refused with \<^verbatim>\<open>TypeError\<close>.
\<close>

fun is_text :: "cell \<Rightarrow> bool" where
  "is_text (Str s) = True"
| "is_text _ = False"

definition nlargest :: "nat \<Rightarrow> string \<Rightarrow> df \<Rightarrow> error + df" where
  "nlargest n col d =
     bind (get_col d col) (\<lambda>ks.
       if list_ex is_text ks then Inl TypeError
       else Inr (d\<lparr>rows := take n (stable_rows col False (rows d))\<rparr>))"

section \<open>The exploratory analysis\<close>

text \<open>
  \<^verbatim>\<open>data_analytics.perform_eda\<close> prints six sections, each behind a test that its tables
  are loaded. Each section is a function of the dictionary that returns what the
  section prints; a section whose test fails prints nothing.
\<close>

definition guarded :: "bool \<Rightarrow> error + 'a \<Rightarrow> error + 'a option" where
  "guarded b m = (if b then bind m (\<lambda>x. Inr (Some x)) else Inr None)"

definition loaded :: "dfs \<Rightarrow> string \<Rightarrow> bool" where
  "loaded ds name = (map_of ds name \<noteq> None)"

text \<open>
  Section 1, lines 81 to 100: the projects over budget and the mean budget utilization
  by project status.
\<close>

definition financial_health :: "conv \<Rightarrow> dfs \<Rightarrow> error + df \<times> (cell \<times> cell) list" where
  "financial_health cv dfs =
     bind (getitem dfs ''expenses'') (\<lambda>expenses.
     bind (group_sum cv ''project_id'' ''amount_aed'' expenses) (\<lambda>proj_expenses.
     bind (getitem dfs ''purchase_orders'') (\<lambda>purchase_orders.
     bind (group_sum cv ''project_id'' ''amount_aed'' purchase_orders) (\<lambda>proj_pos.
     bind (getitem dfs ''projects'') (\<lambda>projects.
     bind (select_cols [''project_id'', ''project_name'', ''budget_aed'', ''status'', ''type'']
             projects) (\<lambda>fin_df.
     bind (merge Left ''project_id'' fin_df
             (series_frame ''project_id'' ''total_expenses'' proj_expenses)) (\<lambda>fin_df.
     bind (merge Left ''project_id'' (frame_fillna (Num 0) fin_df)
             (series_frame ''project_id'' ''total_pos'' proj_pos)) (\<lambda>fin_df.
     let fin_df = frame_fillna (Num 0) fin_df in
     bind (col_arith cv Add ''total_expenses'' ''total_pos'' fin_df) (\<lambda>total_actuals.
     let fin_df = set_col ''total_actuals'' total_actuals fin_df in
     bind (col_arith cv Sub ''budget_aed'' ''total_actuals'' fin_df) (\<lambda>budget_variance.
     let fin_df = set_col ''budget_variance'' budget_variance fin_df in
     bind (col_arith cv Div ''total_actuals'' ''budget_aed'' fin_df) (\<lambda>quotient.
     bind (scalar_arith cv Mul quotient (Num 100)) (\<lambda>budget_utilization_pct.
     let fin_df = set_col ''budget_utilization_pct'' budget_utilization_pct fin_df in
     bind (get_col fin_df ''budget_variance'') (\<lambda>variance.
     bind (collect (map lt_zero variance)) (\<lambda>mask.
     bind (sort_values cv ''budget_variance'' True (mask_rows mask fin_df)) (\<lambda>sorted.
     bind (select_cols [''project_name'', ''budget_aed'', ''total_actuals'', ''budget_variance'']
             (head 5 sorted)) (\<lambda>over_budget.
     bind (group_mean cv ''status'' ''budget_utilization_pct'' fin_df) (\<lambda>by_status.
       Inr (over_budget, by_status))))))))))))))))))"

text \<open>Section 2, lines 105 to 110: the budget volume by client industry.\<close>

definition client_analysis :: "conv \<Rightarrow> dfs \<Rightarrow> error + (cell \<times> cell) list" where
  "client_analysis cv dfs =
     bind (getitem dfs ''projects'') (\<lambda>projects.
     bind (getitem dfs ''clients'') (\<lambda>clients.
     bind (merge Left ''client_id'' projects clients) (\<lambda>client_proj.
     bind (group_sum cv ''industry'' ''budget_aed'' client_proj) (\<lambda>revenue_by_industry.
       Inr (sort_series cv False revenue_by_industry)))))"

text \<open>
  Section 3, lines 117 to 123: the mean salary by department, and the employees with the
  most logged hours. The merge of line 122 names no \<^verbatim>\<open>how\<close>.
\<close>

definition resource_analysis :: "conv \<Rightarrow> dfs \<Rightarrow> error + (cell \<times> cell) list \<times> df" where
  "resource_analysis cv dfs =
     bind (getitem dfs ''employees'') (\<lambda>employees.
     bind (group_mean cv ''department'' ''salary_aed'' employees) (\<lambda>salary.
     let salary_by_department = sort_series cv False salary in
     bind (getitem dfs ''timesheets'') (\<lambda>timesheets.
     bind (group_sum cv ''employee_id'' ''hours_logged'' timesheets) (\<lambda>hours.
     let top_loggers = series_frame ''employee_id'' ''hours_logged'' hours in
     bind (getitem dfs ''employees'') (\<lambda>employees.
     bind (select_cols [''employee_id'', ''full_name''] employees) (\<lambda>names.
     bind (merge Inner ''employee_id'' top_loggers names) (\<lambda>top_loggers.
     bind (sort_values cv ''hours_logged'' False top_loggers) (\<lambda>sorted.
       Inr (salary_by_department, head 5 sorted)))))))))"

text \<open>
  Section 4, lines 128 to 135: the number of risks by impact, and the project types
  with the most risks of high impact.
\<close>

definition risk_analysis :: "conv \<Rightarrow> dfs \<Rightarrow> error + (cell \<times> cell) list \<times> (cell \<times> cell) list" where
  "risk_analysis cv dfs =
     bind (getitem dfs ''risks'') (\<lambda>risks.
     bind (getitem dfs ''projects'') (\<lambda>projects.
     bind (merge Left ''project_id'' risks projects) (\<lambda>risk_proj.
     bind (get_col risk_proj ''impact'') (\<lambda>impact.
     let by_impact = value_counts cv impact in
     bind (get_col risk_proj ''impact'') (\<lambda>impact.
     let high_risk = mask_rows (map (\<lambda>c. c = Str ''High'') impact) risk_proj in
     bind (get_col high_risk ''type'') (\<lambda>types.
       Inr (by_impact, take 3 (value_counts cv types))))))))"

text \<open>
  Section 5, lines 140 to 143: the vendors with the highest spend. The merge of line 141
  names no \<^verbatim>\<open>how\<close>.
\<close>

definition vendor_analysis :: "conv \<Rightarrow> dfs \<Rightarrow> error + df" where
  "vendor_analysis cv dfs =
     bind (getitem dfs ''purchase_orders'') (\<lambda>purchase_orders.
     bind (group_sum cv ''vendor_id'' ''amount_aed'' purchase_orders) (\<lambda>spend.
     let vendor_spend = series_frame ''vendor_id'' ''amount_aed'' spend in
     bind (getitem dfs ''vendors'') (\<lambda>vendors.
     bind (select_cols [''vendor_id'', ''vendor_name'', ''category''] vendors) (\<lambda>names.
     bind (merge Inner ''vendor_id'' vendor_spend names) (\<lambda>vendor_spend.
     bind (sort_values cv ''amount_aed'' False vendor_spend) (\<lambda>sorted.
       Inr (head 5 sorted)))))))"

text \<open>Section 6, lines 149 and 153: the task status distribution and the hours by billability.\<close>

definition task_distribution :: "conv \<Rightarrow> dfs \<Rightarrow> error + (cell \<times> cell) list" where
  "task_distribution cv dfs =
     bind (getitem dfs ''tasks'') (\<lambda>tasks.
     bind (get_col tasks ''status'') (value_percent cv))"

definition billable_hours :: "conv \<Rightarrow> dfs \<Rightarrow> error + (cell \<times> cell) list" where
  "billable_hours cv dfs =
     bind (getitem dfs ''timesheets'') (group_sum cv ''is_billable'' ''hours_logged'')"

text \<open>What \<^verbatim>\<open>perform_eda\<close> prints, section by section.\<close>

record eda =
  financial :: "(df \<times> (cell \<times> cell) list) option"
  revenue_by_industry :: "(cell \<times> cell) list option"
  resources :: "((cell \<times> cell) list \<times> df) option"
  risk_counts :: "((cell \<times> cell) list \<times> (cell \<times> cell) list) option"
  top_vendors :: "df option"
  task_status :: "(cell \<times> cell) list option"
  hours_by_billable :: "(cell \<times> cell) list option"

definition perform_eda :: "conv \<Rightarrow> dfs \<Rightarrow> error + eda" where
  "perform_eda cv dfs =
     bind (guarded (loaded dfs ''projects'' \<and> loaded dfs ''expenses''
                      \<and> loaded dfs ''purchase_orders'') (financial_health cv dfs)) (\<lambda>s1.
     bind (guarded (loaded dfs ''projects'' \<and> loaded dfs ''clients'')
             (client_analysis cv dfs)) (\<lambda>s2.
     bind (guarded (loaded dfs ''employees'' \<and> loaded dfs ''timesheets'')
             (resource_analysis cv dfs)) (\<lambda>s3.
     bind (guarded (loaded dfs ''risks'' \<and> loaded dfs ''projects'')
             (risk_analysis cv dfs)) (\<lambda>s4.
     bind (guarded (loaded dfs ''purchase_orders'' \<and> loaded dfs ''vendors'')
             (vendor_analysis cv dfs)) (\<lambda>s5.
     bind (guarded (loaded dfs ''tasks'') (task_distribution cv dfs)) (\<lambda>s6.
     bind (guarded (loaded dfs ''timesheets'') (billable_hours cv dfs)) (\<lambda>s7.
       Inr \<lparr> financial = s1, revenue_by_industry = s2, resources = s3, risk_counts = s4,
             top_vendors = s5, task_status = s6, hours_by_billable = s7 \<rparr>)))))))"

text \<open>
  The script: \<^verbatim>\<open>data_frames = load_data()\<close>, \<^verbatim>\<open>data_frames = etl_process(data_frames)\<close>,
  \<^verbatim>\<open>perform_eda(data_frames)\<close>.
\<close>

definition data_analytics_main :: "conv \<Rightarrow> fs \<Rightarrow> error + eda" where
  "data_analytics_main cv files =
     bind (etl_process cv (fst (load_data files))) (perform_eda cv)"

section \<open>Dashboard pages\<close>

text \<open>
  \<^verbatim>\<open>if selection: filtered = filtered[filtered[col].isin(selection)]\<close>; an empty
  selection is false in Python.
\<close>

definition filter_isin :: "string \<Rightarrow> cell list \<Rightarrow> df \<Rightarrow> error + df" where
  "filter_isin col selection d =
     (if selection = [] then Inr d
      else bind (get_col d col) (\<lambda>s. Inr (mask_rows (isin s selection) d)))"

text \<open>
  \<^verbatim>\<open>app.py\<close>, Project Analytics, the filters. The three multi-selects offer the distinct
  values of the \<^verbatim>\<open>type\<close>, \<^verbatim>\<open>status\<close> and \<^verbatim>\<open>priority\<close> columns; what the user has selected
  is the input. The filtering starts from \<^verbatim>\<open>data['projects'].copy()\<close>. The result is the
  loaded data after the step, the options offered and the filtered frame.
\<close>

definition project_analytics ::
  "cell list \<Rightarrow> cell list \<Rightarrow> cell list \<Rightarrow> dfs \<Rightarrow> error + dfs \<times> (cell list \<times> cell list \<times> cell list) \<times> df" where
  "project_analytics type_filter status_filter priority_filter data =
     bind (getitem data ''projects'') (\<lambda>projects.
     bind (get_col projects ''type'') (\<lambda>types.
     bind (get_col projects ''status'') (\<lambda>statuses.
     bind (get_col projects ''priority'') (\<lambda>priorities.
     bind (filter_isin ''type'' type_filter projects) (\<lambda>filtered_projects.
     bind (filter_isin ''status'' status_filter filtered_projects) (\<lambda>filtered_projects.
     bind (filter_isin ''priority'' priority_filter filtered_projects) (\<lambda>filtered_projects.
       Inr (data, (unique types, unique statuses, unique priorities), filtered_projects))))))))"

text \<open>
  The \<^verbatim>\<open>.dt\<close> accessor of a series exists when the column is a datetime column: its
  cells are timestamps without time zone or missing, or timestamps of one UTC offset or
  missing. On any other column the attribute access raises \<^verbatim>\<open>AttributeError\<close>.
\<close>

fun naive :: "cell \<Rightarrow> bool" where
  "naive (TS t) = True"
| "naive NaT = True"
| "naive _ = False"

fun aware :: "int \<Rightarrow> cell \<Rightarrow> bool" where
  "aware z (TSZ t z') = (z' = z)"
| "aware z NaT = True"
| "aware z _ = False"

fun offset_of :: "cell \<Rightarrow> int option" where
  "offset_of (TSZ t z) = Some z"
| "offset_of _ = None"

definition is_datetime :: "cell list \<Rightarrow> bool" where
  "is_datetime s =
     (case List.map_filter offset_of s of
        [] \<Rightarrow> list_all naive s
      | z # zs \<Rightarrow> list_all (aware z) s)"

text \<open>\<^verbatim>\<open>series.dt.to_period('M').astype(str)\<close>\<close>

definition dt_month :: "conv \<Rightarrow> cell list \<Rightarrow> error + cell list" where
  "dt_month cv s = (if is_datetime s then Inr (map (month_of cv) s) else Inl AttributeError)"

text \<open>
  \<^verbatim>\<open>(total_expenses / total_budget) * 100 if total_budget > 0 else 0\<close> on the two column
  sums, with the division and the multiplication of the library.
\<close>

definition utilization_of :: "conv \<Rightarrow> cell \<Rightarrow> cell \<Rightarrow> error + cell" where
  "utilization_of cv total_expenses total_budget =
     bind (gt_zero total_budget) (\<lambda>positive.
       if positive
       then bind (arith cv Div total_expenses total_budget) (\<lambda>q. arith cv Mul q (Num 100))
       else Inr (Num 0))"

text \<open>
  \<^verbatim>\<open>proj_names.get(x, x)[:25]\<close>, where \<^verbatim>\<open>proj_names\<close> is the series of project names
  indexed by project id: the name of the project with id \<open>x\<close>, or \<open>x\<close> itself when no
  project has this id, cut to 25 characters. A value that is not a text cannot be
  sliced: \<^verbatim>\<open>TypeError\<close>. When several projects share the id, the lookup gives the series
  of their names and the slice its first 25 entries; what the chart makes of such a
  label is outside the model.
\<close>

datatype label = Text string | Names "cell list"

fun slice25 :: "cell \<Rightarrow> error + label" where
  "slice25 (Str s) = Inr (Text (take 25 s))"
| "slice25 _ = Inl TypeError"

definition label_of :: "(cell \<times> cell) list \<Rightarrow> cell \<Rightarrow> error + label" where
  "label_of proj_names x =
     (case filter (\<lambda>(i, n). i = x) proj_names of
        [] \<Rightarrow> slice25 x
      | [(i, n)] \<Rightarrow> slice25 n
      | ms \<Rightarrow> Inr (Names (take 25 (map snd ms))))"

text \<open>
  \<^verbatim>\<open>app.py\<close>, Financial Insights, lines 340 to 440: the three column sums and the
  metrics made of them, the expenses by category, the monthly expense trend, the
  purchase orders by status and the ten projects with the highest expenses. The charts
  are drawn from these values; of a chart, the arithmetic on its values is modelled,
  which may raise. Line 381 assigns the column \<^verbatim>\<open>month\<close> to \<^verbatim>\<open>data['expenses']\<close>, the
  frame that the loaded data holds. The result is the loaded data after the page has
  run and the values shown.
\<close>

record financial_view =
  total_expenses :: cell
  total_po_value :: cell
  total_budget :: cell
  budget_utilization :: cell
  exp_by_cat :: "(cell \<times> cell) list"
  monthly_exp :: df
  po_status :: "(cell \<times> cell) list"
  proj_exp :: "(label \<times> cell) list"

definition financial_insights :: "conv \<Rightarrow> dfs \<Rightarrow> error + dfs \<times> financial_view" where
  "financial_insights cv data =
     bind (getitem data ''expenses'') (\<lambda>expenses.
     bind (column_total cv expenses ''amount_aed'') (\<lambda>total_expenses.
     bind (getitem data ''purchase_orders'') (\<lambda>purchase_orders.
     bind (column_total cv purchase_orders ''amount_aed'') (\<lambda>total_po_value.
     bind (getitem data ''projects'') (\<lambda>projects.
     bind (column_total cv projects ''budget_aed'') (\<lambda>total_budget.
     bind (arith cv Div total_expenses (Num 1000000)) (\<lambda>metric1.
     bind (arith cv Div total_po_value (Num 1000000)) (\<lambda>metric2.
     bind (arith cv Div total_budget (Num 1000000)) (\<lambda>metric3.
     bind (utilization_of cv total_expenses total_budget) (\<lambda>utilization.
     bind (getitem data ''expenses'') (\<lambda>expenses.
     bind (group_sum cv ''category'' ''amount_aed'' expenses) (\<lambda>by_cat.
     let exp_by_cat = sort_series cv False by_cat in
     bind (scalar_arith cv Div (map snd exp_by_cat) (Num 1000000)) (\<lambda>chart1.
     bind (getitem data ''expenses'') (\<lambda>expenses.
     bind (get_col expenses ''date'') (\<lambda>dates.
     bind (dt_month cv dates) (\<lambda>months.
     let data = AList.update ''expenses'' (set_col ''month'' months expenses) data in
     bind (getitem data ''expenses'') (\<lambda>expenses.
     bind (group_sum cv ''month'' ''amount_aed'' expenses) (\<lambda>by_month.
     let monthly_exp = series_frame ''month'' ''amount_aed'' by_month in
     bind (getitem data ''purchase_orders'') (\<lambda>purchase_orders.
     bind (group_sum cv ''status'' ''amount_aed'' purchase_orders) (\<lambda>po_status.
     bind (getitem data ''expenses'') (\<lambda>expenses.
     bind (group_sum cv ''project_id'' ''amount_aed'' expenses) (\<lambda>by_project.
     let proj_exp = take 10 (sort_series cv False by_project) in
     bind (getitem data ''projects'') (\<lambda>projects.
     bind (get_col projects ''project_id'') (\<lambda>ids.
     bind (get_col projects ''project_name'') (\<lambda>names.
     bind (collect (map (\<lambda>(x, v). bind (label_of (zip ids names) x) (\<lambda>l. Inr (l, v))) proj_exp))
       (\<lambda>proj_exp.
     bind (scalar_arith cv Div (map snd proj_exp) (Num 1000000)) (\<lambda>chart2.
       Inr (data,
            \<lparr> total_expenses = total_expenses, total_po_value = total_po_value,
              total_budget = total_budget, budget_utilization = utilization,
              exp_by_cat = exp_by_cat, monthly_exp = monthly_exp, po_status = po_status,
              proj_exp = proj_exp \<rparr>))))))))))))))))))))))))))))"

text \<open>
  The dashboard on the page Financial Insights: \<^verbatim>\<open>data = load_data()\<close>, then the page.
\<close>

definition app_financial_insights :: "conv \<Rightarrow> fs \<Rightarrow> error + dfs \<times> financial_view" where
  "app_financial_insights cv files = bind (app_load_data cv files) (financial_insights cv)"

section \<open>The batch report\<close>

text \<open>
  \<^verbatim>\<open>generate_report.generate_html_report\<close>: the financial preparation, the KPIs and the
  data of the five charts. No table is tested for being loaded.
\<close>

record report =
  total_budget_kpi :: cell
  total_spend_kpi :: cell
  avg_completion :: cell
  top_projects :: df
  ind_data :: "(cell \<times> cell) list"
  task_dist :: "(cell \<times> cell) list"
  sal_dept :: df
  risk_dist :: "(cell \<times> cell) list"

definition generate_html_report :: "conv \<Rightarrow> dfs \<Rightarrow> error + report" where
  "generate_html_report cv dfs =
     bind (getitem dfs ''projects'') (\<lambda>proj_df.
     bind (getitem dfs ''expenses'') (\<lambda>expenses.
     bind (group_sum cv ''project_id'' ''amount_aed'' expenses) (\<lambda>exp_sum.
     bind (getitem dfs ''purchase_orders'') (\<lambda>purchase_orders.
     bind (group_sum cv ''project_id'' ''amount_aed'' purchase_orders) (\<lambda>po_sum.
     bind (merge Left ''project_id'' proj_df
             (series_frame ''project_id'' ''total_expenses'' exp_sum)) (\<lambda>merged.
     bind (merge Left ''project_id'' merged
             (series_frame ''project_id'' ''total_pos'' po_sum)) (\<lambda>merged.
     let fin_df = frame_fillna (Num 0) merged in
     bind (col_arith cv Add ''total_expenses'' ''total_pos'' fin_df) (\<lambda>total_actuals.
     let fin_df = set_col ''total_actuals'' total_actuals fin_df in
     bind (column_total cv fin_df ''budget_aed'') (\<lambda>total_budget.
     bind (column_total cv fin_df ''total_actuals'') (\<lambda>total_spend.
     bind (column_mean cv fin_df ''completion_percentage'') (\<lambda>avg_completion.
     bind (nlargest 10 ''budget_aed'' fin_df) (\<lambda>top_projects.
     bind (getitem dfs ''clients'') (\<lambda>clients.
     bind (merge Left ''client_id'' proj_df clients) (\<lambda>client_proj.
     bind (group_sum cv ''industry'' ''budget_aed'' client_proj) (\<lambda>ind_data.
     bind (getitem dfs ''tasks'') (\<lambda>tasks.
     bind (get_col tasks ''status'') (\<lambda>task_status.
     bind (getitem dfs ''employees'') (\<lambda>employees.
     bind (group_mean cv ''department'' ''salary_aed'' employees) (\<lambda>salaries.
     bind (sort_values cv ''salary_aed'' True
             (series_frame ''department'' ''salary_aed'' salaries)) (\<lambda>sal_dept.
     bind (getitem dfs ''risks'') (\<lambda>risks.
     bind (get_col risks ''impact'') (\<lambda>risk_impact.
       Inr \<lparr> total_budget_kpi = total_budget, total_spend_kpi = total_spend,
             avg_completion = avg_completion, top_projects = top_projects,
             ind_data = ind_data, task_dist = value_counts cv task_status,
             sal_dept = sal_dept, risk_dist = value_counts cv risk_impact \<rparr>))))))))))))))))))))))"

text \<open>The script: \<^verbatim>\<open>data = load_and_clean()\<close>, \<^verbatim>\<open>generate_html_report(data)\<close>.\<close>

definition generate_report_main :: "conv \<Rightarrow> fs \<Rightarrow> error + report" where
  "generate_report_main cv files = bind (load_and_clean cv files) (generate_html_report cv)"

section \<open>A library for the data sets\<close>

text \<open>
  For the evaluation of the scripts on concrete files, an instance of the library. It
  is meant for the data sets of this development and is used on nothing else: numbers
  are small whole numbers, and every sum, mean, product and quotient that is computed
  from them is a number that the machine represents exactly, so that the machine
  arithmetic agrees with the exact one; no two rows that are sorted have the same key,
  so that every sort routine returns the rows in the same order; dates are written as
  \<^verbatim>\<open>'2024-01-15'\<close> and \<^verbatim>\<open>'2024-02-15'\<close>, which \<^verbatim>\<open>pd.to_datetime\<close> reads as midnight of
  these days. Operands of other kinds than numbers are refused with \<^verbatim>\<open>TypeError\<close>.
\<close>

fun sum_cell :: "cell \<Rightarrow> error + rat" where
  "sum_cell (Num r) = Inr r"
| "sum_cell NaN = Inr 0"
| "sum_cell _ = Inl TypeError"

definition exact_sum :: "cell list \<Rightarrow> error + cell" where
  "exact_sum s = bind (collect (map sum_cell s)) (\<lambda>rs. Inr (Num (sum_list rs)))"

definition exact_mean :: "cell list \<Rightarrow> error + cell" where
  "exact_mean s =
     bind (collect (map sum_cell s)) (\<lambda>rs.
       let n = length (filter (\<lambda>c. \<not> isna c) s)
       in Inr (if n = 0 then NaN else Num (sum_list rs / of_nat n)))"

fun exact_arith :: "binop \<Rightarrow> cell \<Rightarrow> cell \<Rightarrow> error + cell" where
  "exact_arith Add (Num x) (Num y) = Inr (Num (x + y))"
| "exact_arith Sub (Num x) (Num y) = Inr (Num (x - y))"
| "exact_arith Mul (Num x) (Num y) = Inr (Num (x * y))"
| "exact_arith Div (Num x) (Num y) =
     Inr (if y \<noteq> 0 then Num (x / y) else if x = 0 then NaN else Inf (0 < x))"
| "exact_arith op NaN (Num y) = Inr NaN"
| "exact_arith op (Num x) NaN = Inr NaN"
| "exact_arith op NaN NaN = Inr NaN"
| "exact_arith op _ _ = Inl TypeError"

definition stable_series :: "bool \<Rightarrow> (cell \<times> cell) list \<Rightarrow> (cell \<times> cell) list" where
  "stable_series asc gs =
     (let present = filter (\<lambda>(g, v). \<not> isna v) gs;
          missing = filter (\<lambda>(g, v). isna v) gs;
          rank = (\<lambda>(g, v). cell_rank v)
      in (if asc then sort_key rank present else rev (sort_key rank (rev present))) @ missing)"

fun date_cell :: "cell \<Rightarrow> cell" where
  "date_cell (TS t) = TS t"
| "date_cell (TSZ t z) = TSZ t z"
| "date_cell (Str s) =
     (if s = ''2024-01-15'' then TS 1705276800000000000
      else if s = ''2024-02-15'' then TS 1707955200000000000 else NaT)"
| "date_cell _ = NaT"

fun month_cell :: "cell \<Rightarrow> cell" where
  "month_cell (TS t) =
     (if t = 1705276800000000000 then Str ''2024-01''
      else if t = 1707955200000000000 then Str ''2024-02'' else NaN)"
| "month_cell _ = NaN"

fun number_cell :: "cell \<Rightarrow> rat option" where
  "number_cell (Str s) =
     (if s = ''40'' then Some 40 else if s = ''-75'' then Some (- 75) else None)"
| "number_cell _ = None"

definition cv0 :: conv where
  "cv0 = \<lparr> num_of = number_cell,
           to_datetime = (\<lambda>s. Inr (map date_cell s)),
           month_of = month_cell,
           series_sum = exact_sum,
           group_sum_of = exact_sum,
           series_mean = exact_mean,
           group_mean_of = exact_mean,
           arith = exact_arith,
           sort_rows = stable_rows,
           sort_series = stable_series \<rparr>"

section \<open>A small data set\<close>

text \<open>
  Two tables with missing, unparseable and negative cells, and what \<^verbatim>\<open>etl_process\<close>
  makes of them.
\<close>

definition projects0 :: df where
  "projects0 =
     \<lparr> columns = [''project_id'', ''budget_aed'', ''completion_percentage'', ''start_date'', ''status''],
       rows =
         [[(''project_id'', Num 1), (''budget_aed'', Num 1500), (''completion_percentage'', Str ''40''),
           (''start_date'', Str ''2024-01-15''), (''status'', Str ''In Progress'')],
          [(''project_id'', Num 2), (''budget_aed'', NaN), (''completion_percentage'', Str ''n/a''),
           (''start_date'', Str ''soon''), (''status'', Str ''Planning'')],
          [(''project_id'', Num 3), (''budget_aed'', Num (- 200)), (''completion_percentage'', NaN),
           (''start_date'', NaN), (''status'', Str ''Planning'')]] \<rparr>"

definition timesheets0 :: df where
  "timesheets0 =
     \<lparr> columns = [''employee_id'', ''date'', ''hours_logged''],
       rows =
         [[(''employee_id'', Num 1), (''date'', Str ''2024-01-15''), (''hours_logged'', Num 8)],
          [(''employee_id'', Num 99), (''date'', Str ''2024-01-15''), (''hours_logged'', NaN)]] \<rparr>"

definition dfs0 :: dfs where
  "dfs0 = [(''projects'', projects0), (''timesheets'', timesheets0)]"

definition projects0_etl :: df where
  "projects0_etl =
     \<lparr> columns = [''project_id'', ''budget_aed'', ''completion_percentage'', ''start_date'', ''status''],
       rows =
         [[(''project_id'', Num 1), (''budget_aed'', Num 1500), (''completion_percentage'', Num 40),
           (''start_date'', TS 1705276800000000000), (''status'', Str ''In Progress'')],
          [(''project_id'', Num 2), (''budget_aed'', Num 0), (''completion_percentage'', Num 0),
           (''start_date'', NaT), (''status'', Str ''Planning'')],
          [(''project_id'', Num 3), (''budget_aed'', Num (- 200)), (''completion_percentage'', Num 0),
           (''start_date'', NaT), (''status'', Str ''Planning'')]] \<rparr>"

definition timesheets0_etl :: df where
  "timesheets0_etl =
     \<lparr> columns = [''employee_id'', ''date'', ''hours_logged''],
       rows =
         [[(''employee_id'', Num 1), (''date'', TS 1705276800000000000), (''hours_logged'', Num 8)],
          [(''employee_id'', Num 99), (''date'', TS 1705276800000000000), (''hours_logged'', NaN)]] \<rparr>"

definition dfs0_etl :: dfs where
  "dfs0_etl = [(''projects'', projects0_etl), (''timesheets'', timesheets0_etl)]"

text \<open>The files of the small data set, and what \<^verbatim>\<open>load_and_clean\<close> makes of them.\<close>

definition files0 :: fs where
  "files0 = map_of [(''projects.csv'', projects0), (''timesheets.csv'', timesheets0)]"

definition projects0_clean :: df where
  "projects0_clean =
     \<lparr> columns = [''project_id'', ''budget_aed'', ''completion_percentage'', ''start_date'', ''status''],
       rows =
         [[(''project_id'', Num 1), (''budget_aed'', Num 1500), (''completion_percentage'', Str ''40''),
           (''start_date'', Str ''2024-01-15''), (''status'', Str ''In Progress'')],
          [(''project_id'', Num 2), (''budget_aed'', Num 0), (''completion_percentage'', Str ''n/a''),
           (''start_date'', Str ''soon''), (''status'', Str ''Planning'')],
          [(''project_id'', Num 3), (''budget_aed'', Num (- 200)), (''completion_percentage'', NaN),
           (''start_date'', NaN), (''status'', Str ''Planning'')]] \<rparr>"

lemma bind_simps [simp]: "bind (Inl e) f = Inl e" "bind (Inr x) f = f x"
  by (simp_all add: bind_def)

lemmas etl_eval_defs =
  etl_process_def date_conversions_def date_cols_def if_loaded_def convert_numeric_def
  convert_date_def get_col_def set_col_def to_numeric_def fillna_def
  fillna_cell_def cell_of_def

lemma etl_dfs0: "etl_process cv0 dfs0 = Inr dfs0_etl"
  by (simp add: etl_eval_defs cv0_def dfs0_def projects0_def timesheets0_def
      dfs0_etl_def projects0_etl_def timesheets0_etl_def)

lemma load_and_clean_files0:
  "load_and_clean cv0 files0 = Inr [(''projects'', projects0_clean), (''timesheets'', timesheets0)]"
  by (simp add: load_and_clean_def report_files_def files0_def etl_eval_defs cv0_def
      projects0_def timesheets0_def projects0_clean_def)

section \<open>Normalization: the run as column steps\<close>

text \<open>
  For the proofs, a run of the ETL is read as a list of column steps: the table, whether
  the column is required (a numeric conversion reads the column without a test, a date
  conversion tests for it), the column, and the function applied to the column as a
  whole, which may raise.
\<close>

type_synonym colfun = "cell list \<Rightarrow> error + cell list"

type_synonym step = "string \<times> bool \<times> string \<times> colfun"

text \<open>The cells of a column, as \<^verbatim>\<open>df[c]\<close> reads them.\<close>

definition col_cells :: "df \<Rightarrow> string \<Rightarrow> cell list" where
  "col_cells d c = map (\<lambda>r. cell_of r c) (rows d)"

text \<open>The assignment \<^verbatim>\<open>df[c] = G(df[c])\<close>.\<close>

definition col_step :: "bool \<Rightarrow> string \<Rightarrow> colfun \<Rightarrow> df \<Rightarrow> error + df" where
  "col_step req c G d =
     (if c \<in> set (columns d)
      then bind (G (col_cells d c)) (\<lambda>s.
             if length s = length (rows d) then Inr (set_col c s d) else Inl ValueError)
      else if req then Inl (KeyError c) else Inr d)"

fun tbl_step :: "step \<Rightarrow> dfs \<Rightarrow> error + dfs" where
  "tbl_step (n, req, c, G) ds = if_loaded n (col_step req c G) ds"

fun run_steps :: "step list \<Rightarrow> dfs \<Rightarrow> error + dfs" where
  "run_steps [] ds = Inr ds"
| "run_steps (s # ss) ds = bind (tbl_step s ds) (run_steps ss)"

text \<open>What \<^verbatim>\<open>pd.to_numeric(..., errors='coerce').fillna(0)\<close> makes of one cell.\<close>

definition numeric_cell :: "conv \<Rightarrow> cell \<Rightarrow> cell" where
  "numeric_cell cv c = fillna_cell (Num 0) (to_numeric_cell cv c)"

definition cellwise :: "(cell \<Rightarrow> cell) \<Rightarrow> colfun" where
  "cellwise g s = Inr (map g s)"

lemma bind_Inr_iff: "bind m f = Inr y \<longleftrightarrow> (\<exists>x. m = Inr x \<and> f x = Inr y)"
  by (cases m) simp_all

lemma bind_assoc: "bind (bind m f) g = bind m (\<lambda>x. bind (f x) g)"
  by (cases m) simp_all

lemma bind_Inr_right: "bind m Inr = m"
  by (cases m) simp_all

lemma convert_numeric_step:
  "convert_numeric cv c d = col_step True c (cellwise (numeric_cell cv)) d"
  by (simp add: convert_numeric_def col_step_def get_col_def col_cells_def cellwise_def
      fillna_def to_numeric_def numeric_cell_def comp_def)

lemma convert_date_step: "convert_date cv c d = col_step False c (to_datetime cv) d"
  by (simp add: convert_date_def col_step_def get_col_def col_cells_def)

lemma run_steps_append: "run_steps (a @ b) ds = bind (run_steps a ds) (run_steps b)"
  by (induction a arbitrary: ds) (auto simp: bind_def split: sum.splits)

lemma if_loaded_bind:
  "if_loaded n (\<lambda>d. bind (f d) g) ds = bind (if_loaded n f ds) (if_loaded n g)"
  by (auto simp: if_loaded_def bind_def update_conv' split: option.splits sum.splits)

lemma if_loaded_Inr: "if_loaded n Inr ds = Inr ds"
  by (simp add: if_loaded_def update_triv split: option.splits)

lemma convert_dates_steps:
  "if_loaded n (convert_dates cv cols) ds
     = run_steps (map (\<lambda>c. (n, False, c, to_datetime cv)) cols) ds"
proof (induction cols arbitrary: ds)
  case Nil
  have "convert_dates cv [] = Inr" by (rule ext) simp
  then show ?case by (simp add: if_loaded_Inr)
next
  case (Cons c cols)
  have "convert_dates cv (c # cols) = (\<lambda>d. bind (convert_date cv c d) (convert_dates cv cols))"
    by (rule ext) simp
  then have "if_loaded n (convert_dates cv (c # cols)) ds
               = bind (if_loaded n (convert_date cv c) ds) (if_loaded n (convert_dates cv cols))"
    by (simp add: if_loaded_bind)
  also have "if_loaded n (convert_dates cv cols)
               = run_steps (map (\<lambda>c. (n, False, c, to_datetime cv)) cols)"
    by (rule ext) (rule Cons.IH)
  also have "convert_date cv c = col_step False c (to_datetime cv)"
    by (rule ext) (rule convert_date_step)
  finally show ?case by simp
qed

text \<open>The steps of the loop over the date columns, and of \<^verbatim>\<open>etl_process\<close> as a whole.\<close>

definition date_steps :: "conv \<Rightarrow> (string \<times> string list) list \<Rightarrow> step list" where
  "date_steps cv tbl =
     concat (map (\<lambda>(n, cols). map (\<lambda>c. (n, False, c, to_datetime cv)) cols) tbl)"

lemma date_loop_steps: "date_loop cv tbl ds = run_steps (date_steps cv tbl) ds"
proof (induction tbl arbitrary: ds)
  case Nil
  then show ?case by (simp add: date_steps_def)
next
  case (Cons p tbl)
  obtain n cols where p: "p = (n, cols)" by (cases p)
  have "date_loop cv tbl = run_steps (date_steps cv tbl)"
    by (rule ext) (rule Cons.IH)
  then show ?case
    by (simp add: p date_steps_def run_steps_append convert_dates_steps)
qed

definition numeric_steps :: "conv \<Rightarrow> step list" where
  "numeric_steps cv =
     [(''projects'', True, ''budget_aed'', cellwise (numeric_cell cv)),
      (''projects'', True, ''completion_percentage'', cellwise (numeric_cell cv)),
      (''expenses'', True, ''amount_aed'', cellwise (numeric_cell cv)),
      (''purchase_orders'', True, ''amount_aed'', cellwise (numeric_cell cv)),
      (''employees'', True, ''salary_aed'', cellwise (numeric_cell cv))]"

definition etl_steps :: "conv \<Rightarrow> step list" where
  "etl_steps cv = date_steps cv date_cols @ numeric_steps cv"

lemma run_steps_fun:
  "run_steps [] = Inr" "run_steps (s # ss) = (\<lambda>ds. bind (tbl_step s ds) (run_steps ss))"
  by (rule ext, simp)+

lemma tbl_step_fun: "tbl_step (n, req, c, G) = if_loaded n (col_step req c G)"
  by (rule ext) simp

lemma numeric_part_steps:
  "bind (if_loaded ''projects''
           (\<lambda>d. bind (convert_numeric cv ''budget_aed'' d)
                      (convert_numeric cv ''completion_percentage'')) ds) (\<lambda>ds.
   bind (if_loaded ''expenses'' (convert_numeric cv ''amount_aed'') ds) (\<lambda>ds.
   bind (if_loaded ''purchase_orders'' (convert_numeric cv ''amount_aed'') ds) (\<lambda>ds.
   if_loaded ''employees'' (convert_numeric cv ''salary_aed'') ds)))
   = run_steps (numeric_steps cv) ds"
  unfolding numeric_steps_def
  by (simp add: if_loaded_bind convert_numeric_step [abs_def] bind_assoc run_steps_fun
      tbl_step_fun bind_Inr_right)

lemma etl_process_steps: "etl_process cv ds = run_steps (etl_steps cv) ds"
proof -
  have "etl_process cv ds = bind (date_conversions cv ds) (run_steps (numeric_steps cv))"
    unfolding etl_process_def by (simp only: numeric_part_steps)
  then show ?thesis
    by (simp add: etl_steps_def run_steps_append date_conversions_def date_loop_steps)
qed



text \<open>
  The table and column each step aims at; what a row holds under a column, if anything,
  and the column read row by row in this way.
\<close>

definition targets :: "step list \<Rightarrow> (string \<times> string) list" where
  "targets ss = map (\<lambda>(n, req, c, G). (n, c)) ss"

definition cell_opt :: "cell option \<Rightarrow> cell" where
  "cell_opt v = (case v of Some c \<Rightarrow> c | None \<Rightarrow> NaN)"

definition series :: "df \<Rightarrow> string \<Rightarrow> cell option list" where
  "series d c = map (\<lambda>r. map_of r c) (rows d)"

lemma col_cells_series: "col_cells d c = map cell_opt (series d c)"
  by (simp add: col_cells_def series_def cell_of_def cell_opt_def)

lemma update_rows_series:
  "length rs = length s \<Longrightarrow>
   map (\<lambda>r. map_of r c') (map (\<lambda>(r, v). AList.update c v r) (zip rs s))
     = (if c' = c then map Some s else map (\<lambda>r. map_of r c') rs)"
  by (induction rs s rule: list_induct2) (simp_all add: update_conv')

lemma set_col_series:
  "length s = length (rows d) \<Longrightarrow>
   series (set_col c s d) c' = (if c' = c then map Some s else series d c')"
  using update_rows_series [of "rows d" s c' c] by (simp add: series_def set_col_def)

lemma col_step_columns: "col_step req c G d = Inr d' \<Longrightarrow> columns d' = columns d"
  by (auto simp: col_step_def bind_Inr_iff set_col_def split: if_splits)

lemma col_step_series:
  "col_step req c G d = Inr d' \<Longrightarrow> c' \<noteq> c \<Longrightarrow> series d' c' = series d c'"
  by (auto simp: col_step_def bind_Inr_iff set_col_series split: if_splits)

lemma col_step_target:
  "col_step req c G d = Inr d' \<Longrightarrow> c \<in> set (columns d) \<Longrightarrow>
   \<exists>s. G (col_cells d c) = Inr s \<and> series d' c = map Some s"
  by (auto simp: col_step_def bind_Inr_iff set_col_series split: if_splits)

lemma tbl_step_other:
  "tbl_step (n, req, c, G) ds = Inr ds' \<Longrightarrow> n' \<noteq> n \<Longrightarrow> map_of ds' n' = map_of ds n'"
  by (auto simp: if_loaded_def bind_Inr_iff update_conv' split: option.splits)

lemma tbl_step_same:
  "tbl_step (n, req, c, G) ds = Inr ds' \<Longrightarrow> map_of ds n = Some d \<Longrightarrow>
   \<exists>d'. map_of ds' n = Some d' \<and> col_step req c G d = Inr d'"
  by (auto simp: if_loaded_def bind_Inr_iff update_conv' split: option.splits)


text \<open>Steps that do not aim at column \<open>c\<close> of table \<open>n\<close> leave it as it is.\<close>

lemma run_steps_untouched:
  "run_steps ss ds = Inr ds' \<Longrightarrow> (n, c) \<notin> set (targets ss) \<Longrightarrow> map_of ds n = Some d \<Longrightarrow>
   \<exists>d'. map_of ds' n = Some d' \<and> columns d' = columns d \<and> series d' c = series d c"
proof (induction ss arbitrary: ds d)
  case Nil
  then show ?case by simp
next
  case (Cons s ss)
  obtain n1 req1 c1 g1 where s: "s = (n1, req1, c1, g1)" by (cases s)
  from Cons.prems(1) obtain ds1 where
    1: "tbl_step s ds = Inr ds1" and 2: "run_steps ss ds1 = Inr ds'"
    by (auto simp: bind_Inr_iff)
  from Cons.prems(2) have nt: "(n, c) \<notin> set (targets ss)" and ne: "n1 \<noteq> n \<or> c1 \<noteq> c"
    by (auto simp: targets_def s)
  have "\<exists>d1. map_of ds1 n = Some d1 \<and> columns d1 = columns d \<and> series d1 c = series d c"
  proof (cases "n1 = n")
    case True
    with 1 s Cons.prems(3) obtain d1 where
      "map_of ds1 n = Some d1" "col_step req1 c1 g1 d = Inr d1"
      using tbl_step_same by blast
    with ne True show ?thesis
      by (auto simp: col_step_columns col_step_series)
  next
    case False
    with 1 s Cons.prems(3) show ?thesis
      using tbl_step_other [of n1 req1 c1 g1 ds ds1 n] by auto
  qed
  then obtain d1 where d1: "map_of ds1 n = Some d1" "columns d1 = columns d"
    "series d1 c = series d c" by blast
  from Cons.IH [OF 2 nt d1(1)] d1 show ?case by auto
qed

text \<open>A step that aims at a column of the table assigns what its function returns.\<close>

lemma run_steps_touched:
  "run_steps ss ds = Inr ds' \<Longrightarrow> distinct (targets ss) \<Longrightarrow> (n, req, c, G) \<in> set ss \<Longrightarrow>
   map_of ds n = Some d \<Longrightarrow> c \<in> set (columns d) \<Longrightarrow>
   \<exists>d' s. map_of ds' n = Some d' \<and> columns d' = columns d
     \<and> G (col_cells d c) = Inr s \<and> series d' c = map Some s"
proof (induction ss arbitrary: ds d)
  case Nil
  then show ?case by simp
next
  case (Cons s ss)
  obtain n1 req1 c1 g1 where s: "s = (n1, req1, c1, g1)" by (cases s)
  from Cons.prems(1) obtain ds1 where
    1: "tbl_step s ds = Inr ds1" and 2: "run_steps ss ds1 = Inr ds'"
    by (auto simp: bind_Inr_iff)
  from Cons.prems(2) have dis: "distinct (targets ss)" and hd: "(n1, c1) \<notin> set (targets ss)"
    by (auto simp: targets_def s)
  show ?case
  proof (cases "s = (n, req, c, G)")
    case True
    with 1 Cons.prems(4) obtain d1 where
      d1: "map_of ds1 n = Some d1" "col_step req c G d = Inr d1"
      using tbl_step_same by blast
    from hd True s have "(n, c) \<notin> set (targets ss)" by simp
    from run_steps_untouched [OF 2 this d1(1)] obtain d' where
      d': "map_of ds' n = Some d'" "columns d' = columns d1" "series d' c = series d1 c"
      by blast
    from col_step_target [OF d1(2) Cons.prems(5)] obtain s' where
      "G (col_cells d c) = Inr s'" "series d1 c = map Some s'" by blast
    with d' col_step_columns [OF d1(2)] show ?thesis by auto
  next
    case False
    with Cons.prems(3) have mem: "(n, req, c, G) \<in> set ss" by simp
    then have "(n, c) \<in> set (targets ss)" by (force simp: targets_def)
    with hd have ne: "n1 \<noteq> n \<or> c1 \<noteq> c" by auto
    have "\<exists>d1. map_of ds1 n = Some d1 \<and> columns d1 = columns d \<and> series d1 c = series d c"
    proof (cases "n1 = n")
      case True
      with 1 s Cons.prems(4) obtain d1 where
        "map_of ds1 n = Some d1" "col_step req1 c1 g1 d = Inr d1"
        using tbl_step_same by blast
      with ne True show ?thesis
        by (auto simp: col_step_columns col_step_series)
    next
      case False
      with 1 s Cons.prems(4) show ?thesis
        using tbl_step_other [of n1 req1 c1 g1 ds ds1 n] by auto
    qed
    then obtain d1 where d1: "map_of ds1 n = Some d1" "columns d1 = columns d"
      "series d1 c = series d c" by blast
    from d1(3) have "col_cells d1 c = col_cells d c" by (simp add: col_cells_series)
    with Cons.IH [OF 2 dis mem d1(1)] d1 Cons.prems(5) show ?thesis by auto
  qed
qed

lemma run_steps_required:
  "run_steps ss ds = Inr ds' \<Longrightarrow> distinct (targets ss) \<Longrightarrow> (n, True, c, G) \<in> set ss \<Longrightarrow>
   map_of ds n = Some d \<Longrightarrow> c \<in> set (columns d)"
proof (induction ss arbitrary: ds d)
  case Nil
  then show ?case by simp
next
  case (Cons s ss)
  obtain n1 req1 c1 g1 where s: "s = (n1, req1, c1, g1)" by (cases s)
  from Cons.prems(1) obtain ds1 where
    1: "tbl_step s ds = Inr ds1" and 2: "run_steps ss ds1 = Inr ds'"
    by (auto simp: bind_Inr_iff)
  from Cons.prems(2) have dis: "distinct (targets ss)" by (simp add: targets_def)
  show ?case
  proof (cases "s = (n, True, c, G)")
    case True
    with 1 Cons.prems(4) show ?thesis
      by (auto simp: if_loaded_def bind_Inr_iff col_step_def split: if_splits)
  next
    case False
    with Cons.prems(3) have mem: "(n, True, c, G) \<in> set ss" by simp
    have "\<exists>d1. map_of ds1 n = Some d1 \<and> columns d1 = columns d"
    proof (cases "n1 = n")
      case True
      with 1 s Cons.prems(4) obtain d1 where
        "map_of ds1 n = Some d1" "col_step req1 c1 g1 d = Inr d1"
        using tbl_step_same by blast
      then show ?thesis by (auto simp: col_step_columns)
    next
      case False
      with 1 s Cons.prems(4) show ?thesis
        using tbl_step_other [of n1 req1 c1 g1 ds ds1 n] by auto
    qed
    then obtain d1 where d1: "map_of ds1 n = Some d1" "columns d1 = columns d" by blast
    from Cons.IH [OF 2 dis mem d1(1)] d1 show ?thesis by simp
  qed
qed















lemma etl_steps_distinct: "distinct (targets (etl_steps cv))"
  by (simp add: etl_steps_def numeric_steps_def date_steps_def date_cols_def targets_def)

text \<open>The steps of the basic ETL of \<^verbatim>\<open>load_and_clean\<close>.\<close>

definition report_steps :: "conv \<Rightarrow> step list" where
  "report_steps cv =
     [(''projects'', True, ''budget_aed'', cellwise (numeric_cell cv)),
      (''expenses'', True, ''amount_aed'', cellwise (numeric_cell cv)),
      (''purchase_orders'', True, ''amount_aed'', cellwise (numeric_cell cv)),
      (''employees'', True, ''salary_aed'', cellwise (numeric_cell cv))]"

lemma load_and_clean_steps:
  "load_and_clean cv files = run_steps (report_steps cv) (fst (load_loop files report_files ([], [])))"
  unfolding load_and_clean_def report_steps_def
  by (simp add: convert_numeric_step [abs_def] run_steps_fun tbl_step_fun bind_Inr_right)

lemma run_steps_numeric:
  assumes run: "run_steps ss ds = Inr ds'" and dis: "distinct (targets ss)"
    and mem: "(n, True, c, cellwise g) \<in> set ss" and d: "map_of ds n = Some d"
  shows "\<exists>d'. map_of ds' n = Some d' \<and> columns d' = columns d \<and> c \<in> set (columns d)
           \<and> col_cells d' c = map g (col_cells d c)"
proof -
  from run_steps_required [OF run dis mem d] have c: "c \<in> set (columns d)" .
  from run_steps_touched [OF run dis mem d c] c show ?thesis
    by (auto simp: col_cells_series cell_opt_def comp_def cellwise_def)
qed

text \<open>The columns that \<^verbatim>\<open>etl_process\<close> and \<^verbatim>\<open>load_and_clean\<close> convert to numbers.\<close>

definition etl_numeric_cols :: "(string \<times> string) list" where
  "etl_numeric_cols =
     [(''projects'', ''budget_aed''), (''projects'', ''completion_percentage''),
      (''expenses'', ''amount_aed''), (''purchase_orders'', ''amount_aed''),
      (''employees'', ''salary_aed'')]"

definition report_numeric_cols :: "(string \<times> string) list" where
  "report_numeric_cols =
     [(''projects'', ''budget_aed''), (''expenses'', ''amount_aed''),
      (''purchase_orders'', ''amount_aed''), (''employees'', ''salary_aed'')]"

lemma etl_numeric_effect:
  assumes "etl_process cv ds = Inr ds'" "(n, c) \<in> set etl_numeric_cols" "map_of ds n = Some d"
  shows "\<exists>d'. map_of ds' n = Some d' \<and> columns d' = columns d \<and> c \<in> set (columns d)
           \<and> col_cells d' c = map (numeric_cell cv) (col_cells d c)"
proof -
  from assms(2) have "(n, True, c, cellwise (numeric_cell cv)) \<in> set (etl_steps cv)"
    by (auto simp: etl_numeric_cols_def etl_steps_def numeric_steps_def)
  from run_steps_numeric [OF assms(1) [unfolded etl_process_steps] etl_steps_distinct this assms(3)]
  show ?thesis .
qed

lemma report_steps_distinct: "distinct (targets (report_steps cv))"
  by (simp add: report_steps_def targets_def)

lemma load_loop_lookup:
  "distinct (map fst fl) \<Longrightarrow>
   map_of (fst (load_loop files fl (ds, out))) n =
     (case map_of fl n of
        None \<Rightarrow> map_of ds n
      | Some f \<Rightarrow> (case files f of None \<Rightarrow> map_of ds n | Some d \<Rightarrow> Some d))"
proof (induction fl arbitrary: ds out)
  case Nil
  then show ?case by simp
next
  case (Cons p fl)
  obtain name f where p: "p = (name, f)" by (cases p)
  from Cons.prems have dis: "distinct (map fst fl)" and nin: "name \<notin> fst ` set fl"
    by (auto simp: p)
  from nin have none: "map_of fl name = None" by (simp add: map_of_eq_None_iff)
  show ?case
  proof (cases "files f")
    case None
    have "load_loop files (p # fl) (ds, out) = load_loop files fl (ds, out @ [NotFound f])"
      by (simp add: p None)
    then show ?thesis
      using Cons.IH [OF dis, of ds "out @ [NotFound f]"] none None
      by (cases "n = name") (simp_all add: p)
  next
    case (Some d)
    have "load_loop files (p # fl) (ds, out)
            = load_loop files fl (AList.update name d ds, out @ [Loaded name])"
      by (simp add: p Some)
    then show ?thesis
      using Cons.IH [OF dis, of "AList.update name d ds" "out @ [Loaded name]"] none Some
      by (cases "n = name") (simp_all add: p update_conv' split: option.splits)
  qed
qed

lemma report_loaded:
  "(n, f) \<in> set report_files \<Longrightarrow>
   map_of (fst (load_loop files report_files ([], []))) n = files f"
proof -
  assume a: "(n, f) \<in> set report_files"
  have dis: "distinct (map fst report_files)" by (simp add: report_files_def)
  then have "map_of report_files n = Some f" using a by simp
  with load_loop_lookup [OF dis, of files "[]" "[]" n] show ?thesis
    by (simp split: option.splits)
qed

lemma report_numeric_effect:
  assumes "load_and_clean cv files = Inr ds'" "(n, c) \<in> set report_numeric_cols"
    "(n, f) \<in> set report_files" "files f = Some d"
  shows "\<exists>d'. map_of ds' n = Some d' \<and> columns d' = columns d \<and> c \<in> set (columns d)
           \<and> col_cells d' c = map (numeric_cell cv) (col_cells d c)"
proof -
  from assms(2) have mem: "(n, True, c, cellwise (numeric_cell cv)) \<in> set (report_steps cv)"
    by (auto simp: report_numeric_cols_def report_steps_def)
  from report_loaded [OF assms(3), of files] assms(4)
  have "map_of (fst (load_loop files report_files ([], []))) n = Some d" by simp
  from run_steps_numeric [OF assms(1) [unfolded load_and_clean_steps] report_steps_distinct mem this]
  show ?thesis .
qed

section \<open>Claims about normalization\<close>

text \<open>The properties of one input cell \<open>x\<close> and the cell \<open>y\<close> in its place after normalization.\<close>

fun missing_or_unparseable :: "conv \<Rightarrow> cell \<Rightarrow> bool" where
  "missing_or_unparseable cv NaN = True"
| "missing_or_unparseable cv (Str s) = (num_of cv (Str s) = None)"
| "missing_or_unparseable cv _ = False"

fun nonneg :: "cell \<Rightarrow> bool" where
  "nonneg (Num r) = (0 \<le> r)"
| "nonneg (Inf s) = s"
| "nonneg (Bool b) = True"
| "nonneg _ = False"

definition zero_filled :: "conv \<Rightarrow> cell \<Rightarrow> cell \<Rightarrow> bool" where
  "zero_filled cv x y = (\<not> isna y \<and> (if missing_or_unparseable cv x then y = Num 0 else True))"

lemma zero_filled_numeric_cell: "zero_filled cv x (numeric_cell cv x)"
  by (cases x) (auto simp: zero_filled_def numeric_cell_def fillna_cell_def split: option.splits)

lemma list_all2_map_self: "(\<And>x. P x (g x)) \<Longrightarrow> list_all2 P xs (map g xs)"
  by (induction xs) simp_all

subsection \<open>Claim C4\<close>

text \<open>
  C4 as stated names \<^verbatim>\<open>hours_logged\<close> among the columns whose missing cells become zero.
  Neither \<^verbatim>\<open>etl_process\<close> nor \<^verbatim>\<open>load_and_clean\<close> touches \<^verbatim>\<open>hours_logged\<close>: in the small
  data set the missing hours of the second timesheet row are still missing after the ETL.
\<close>

theorem C4_counterexample:
  "etl_process cv0 dfs0 = Inr dfs0_etl
   \<and> map_of dfs0 ''timesheets'' = Some timesheets0
   \<and> col_cells timesheets0 ''hours_logged'' = [Num 8, NaN]
   \<and> map_of dfs0_etl ''timesheets'' = Some timesheets0_etl
   \<and> col_cells timesheets0_etl ''hours_logged'' = [Num 8, NaN]"
  by (simp add: etl_dfs0)
     (simp add: dfs0_def dfs0_etl_def timesheets0_def timesheets0_etl_def col_cells_def cell_of_def)

text \<open>
  C4, amended: after normalization, in every column that the scripts convert
  (\<^verbatim>\<open>budget_aed\<close> and \<^verbatim>\<open>completion_percentage\<close> of projects, \<^verbatim>\<open>amount_aed\<close> of expenses and of
  purchase orders, \<^verbatim>\<open>salary_aed\<close> of employees in \<^verbatim>\<open>etl_process\<close>; the same without
  \<^verbatim>\<open>completion_percentage\<close> in \<^verbatim>\<open>load_and_clean\<close>) every cell whose input was missing or
  unparseable is zero, and no cell is missing, so a sum over such a column meets no absent
  value. \<^verbatim>\<open>hours_logged\<close> is not converted.
\<close>

theorem C4_missing_becomes_zero:
  "(etl_process cv ds = Inr ds' \<and> (n, c) \<in> set etl_numeric_cols \<and> map_of ds n = Some d
      \<longrightarrow> (\<exists>d'. map_of ds' n = Some d'
              \<and> list_all2 (zero_filled cv) (col_cells d c) (col_cells d' c)))
   \<and> (load_and_clean cv files = Inr ds' \<and> (n, c) \<in> set report_numeric_cols
        \<and> (n, f) \<in> set report_files \<and> files f = Some d
      \<longrightarrow> (\<exists>d'. map_of ds' n = Some d'
              \<and> list_all2 (zero_filled cv) (col_cells d c) (col_cells d' c)))"
proof (intro conjI impI)
  assume "etl_process cv ds = Inr ds' \<and> (n, c) \<in> set etl_numeric_cols \<and> map_of ds n = Some d"
  then obtain d' where "map_of ds' n = Some d'"
    "col_cells d' c = map (numeric_cell cv) (col_cells d c)"
    using etl_numeric_effect [of cv ds ds' n c d] by blast
  then show "\<exists>d'. map_of ds' n = Some d'
               \<and> list_all2 (zero_filled cv) (col_cells d c) (col_cells d' c)"
    by (auto intro: list_all2_map_self zero_filled_numeric_cell)
next
  assume "load_and_clean cv files = Inr ds' \<and> (n, c) \<in> set report_numeric_cols
            \<and> (n, f) \<in> set report_files \<and> files f = Some d"
  then obtain d' where "map_of ds' n = Some d'"
    "col_cells d' c = map (numeric_cell cv) (col_cells d c)"
    using report_numeric_effect [of cv files ds' n c f d] by blast
  then show "\<exists>d'. map_of ds' n = Some d'
               \<and> list_all2 (zero_filled cv) (col_cells d c) (col_cells d' c)"
    by (auto intro: list_all2_map_self zero_filled_numeric_cell)
qed

lemma dfs0_lookup:
  "map_of dfs0 ''projects'' = Some projects0" "map_of dfs0_etl ''projects'' = Some projects0_etl"
  "map_of dfs0 ''timesheets'' = Some timesheets0"
  "map_of dfs0_etl ''timesheets'' = Some timesheets0_etl"
  by (simp_all add: dfs0_def dfs0_etl_def)

lemma budget_cells0:
  "col_cells projects0 ''budget_aed'' = [Num 1500, NaN, Num (- 200)]"
  "col_cells projects0_etl ''budget_aed'' = [Num 1500, Num 0, Num (- 200)]"
  "col_cells projects0_clean ''budget_aed'' = [Num 1500, Num 0, Num (- 200)]"
  by (simp_all add: col_cells_def cell_of_def projects0_def projects0_etl_def projects0_clean_def)

theorem C4_missing_becomes_zero_witness:
  "etl_process cv0 dfs0 = Inr dfs0_etl
   \<and> (''projects'', ''budget_aed'') \<in> set etl_numeric_cols
   \<and> map_of dfs0 ''projects'' = Some projects0
   \<and> map_of dfs0_etl ''projects'' = Some projects0_etl
   \<and> list_all2 (zero_filled cv0)
        (col_cells projects0 ''budget_aed'') (col_cells projects0_etl ''budget_aed'')
   \<and> col_cells projects0 ''budget_aed'' = [Num 1500, NaN, Num (- 200)]
   \<and> col_cells projects0_etl ''budget_aed'' = [Num 1500, Num 0, Num (- 200)]
   \<and> load_and_clean cv0 files0 = Inr [(''projects'', projects0_clean), (''timesheets'', timesheets0)]
   \<and> (''projects'', ''budget_aed'') \<in> set report_numeric_cols
   \<and> (''projects'', ''projects.csv'') \<in> set report_files
   \<and> files0 ''projects.csv'' = Some projects0
   \<and> list_all2 (zero_filled cv0)
        (col_cells projects0 ''budget_aed'') (col_cells projects0_clean ''budget_aed'')"
proof -
  have 1: "(''projects'', ''budget_aed'') \<in> set etl_numeric_cols"
    by (simp add: etl_numeric_cols_def)
  have 2: "(''projects'', ''budget_aed'') \<in> set report_numeric_cols"
    by (simp add: report_numeric_cols_def)
  have 3: "(''projects'', ''projects.csv'') \<in> set report_files"
    by (simp add: report_files_def)
  have 4: "files0 ''projects.csv'' = Some projects0"
    by (simp add: files0_def)
  have "list_all2 (zero_filled cv0)
          (col_cells projects0 ''budget_aed'') (col_cells projects0_etl ''budget_aed'')"
    using C4_missing_becomes_zero [of cv0 dfs0 dfs0_etl "''projects''" "''budget_aed''" projects0]
      etl_dfs0 1 dfs0_lookup by simp
  moreover have "list_all2 (zero_filled cv0)
          (col_cells projects0 ''budget_aed'') (col_cells projects0_clean ''budget_aed'')"
    using C4_missing_becomes_zero [of cv0 _ "[(''projects'', projects0_clean), (''timesheets'', timesheets0)]"
        "''projects''" "''budget_aed''" projects0 files0 "''projects.csv''"]
      load_and_clean_files0 2 3 4 by simp
  ultimately show ?thesis
    using etl_dfs0 1 2 3 4 dfs0_lookup budget_cells0 load_and_clean_files0 by simp
qed

subsection \<open>Claim C5\<close>








text \<open>
  When the library raises on the first date column, so does \<^verbatim>\<open>etl_process\<close>: the call
  is not inside a \<^verbatim>\<open>try\<close>.
\<close>

lemma etl_process_raises:
  assumes "map_of ds ''projects'' = Some d" "''start_date'' \<in> set (columns d)"
    "to_datetime cv (col_cells d ''start_date'') = Inl e"
  shows "etl_process cv ds = Inl e"
  using assms
  by (simp add: etl_process_def date_conversions_def date_cols_def if_loaded_def
      convert_date_def get_col_def col_cells_def)










subsection \<open>Claim C8\<close>

text \<open>
  C8 as stated: every monetary or quantity value is non-negative after normalization.
  The conversions turn text into numbers and fill missing values with zero; no step
  looks at the sign. The negative budget of the third project of the small data set is
  the same negative budget after \<^verbatim>\<open>etl_process\<close> and after \<^verbatim>\<open>load_and_clean\<close>.
\<close>

theorem C8_counterexample:
  "etl_process cv0 dfs0 = Inr dfs0_etl
   \<and> map_of dfs0_etl ''projects'' = Some projects0_etl
   \<and> col_cells projects0_etl ''budget_aed'' = [Num 1500, Num 0, Num (- 200)]
   \<and> \<not> list_all nonneg (col_cells projects0_etl ''budget_aed'')
   \<and> load_and_clean cv0 files0 = Inr [(''projects'', projects0_clean), (''timesheets'', timesheets0)]
   \<and> \<not> list_all nonneg (col_cells projects0_clean ''budget_aed'')"
  by (simp add: etl_dfs0 dfs0_lookup budget_cells0 load_and_clean_files0)

text \<open>
  What the conversion makes of an input cell \<open>x\<close>: a number, an infinity and a boolean
  are kept, a missing value becomes zero, and any other cell becomes the number that
  \<^verbatim>\<open>pd.to_numeric\<close> reads from it, or zero when it reads none. The number that the input
  stands for is negative when the input is a negative number or reads as one.
\<close>

fun value_kept :: "conv \<Rightarrow> cell \<Rightarrow> cell \<Rightarrow> bool" where
  "value_kept cv (Num r) y = (y = Num r)"
| "value_kept cv (Inf s) y = (y = Inf s)"
| "value_kept cv (Bool b) y = (y = Bool b)"
| "value_kept cv NaN y = (y = Num 0)"
| "value_kept cv x y = (y = Num (case num_of cv x of Some r \<Rightarrow> r | None \<Rightarrow> 0))"

fun reads_negative :: "conv \<Rightarrow> cell \<Rightarrow> bool" where
  "reads_negative cv (Num r) = (r < 0)"
| "reads_negative cv (Inf s) = (\<not> s)"
| "reads_negative cv (Bool b) = False"
| "reads_negative cv NaN = False"
| "reads_negative cv x = (case num_of cv x of Some r \<Rightarrow> r < 0 | None \<Rightarrow> False)"

definition normalized :: "conv \<Rightarrow> cell \<Rightarrow> cell \<Rightarrow> bool" where
  "normalized cv x y =
     (value_kept cv x y \<and> \<not> isna y \<and> nonneg y = (\<not> reads_negative cv x))"

lemma normalized_numeric_cell: "normalized cv x (numeric_cell cv x)"
  by (cases x)
     (auto simp: normalized_def numeric_cell_def fillna_cell_def split: option.splits)

text \<open>A table of expenses with a negative amount written as text.\<close>

definition expenses8 :: df where
  "expenses8 =
     \<lparr> columns = [''expense_id'', ''project_id'', ''amount_aed''],
       rows =
         [[(''expense_id'', Num 1), (''project_id'', Num 1), (''amount_aed'', Str ''-75'')],
          [(''expense_id'', Num 2), (''project_id'', Num 1), (''amount_aed'', Str ''n/a'')],
          [(''expense_id'', Num 3), (''project_id'', Num 2), (''amount_aed'', NaN)],
          [(''expense_id'', Num 4), (''project_id'', Num 2), (''amount_aed'', Num 12)]] \<rparr>"

definition expenses8_etl :: df where
  "expenses8_etl =
     \<lparr> columns = [''expense_id'', ''project_id'', ''amount_aed''],
       rows =
         [[(''expense_id'', Num 1), (''project_id'', Num 1), (''amount_aed'', Num (- 75))],
          [(''expense_id'', Num 2), (''project_id'', Num 1), (''amount_aed'', Num 0)],
          [(''expense_id'', Num 3), (''project_id'', Num 2), (''amount_aed'', Num 0)],
          [(''expense_id'', Num 4), (''project_id'', Num 2), (''amount_aed'', Num 12)]] \<rparr>"

lemma etl_expenses8: "etl_process cv0 [(''expenses'', expenses8)] = Inr [(''expenses'', expenses8_etl)]"
  by (simp add: etl_eval_defs cv0_def expenses8_def expenses8_etl_def)

lemma load_and_clean_expenses8:
  "load_and_clean cv0 (map_of [(''expenses.csv'', expenses8)]) = Inr [(''expenses'', expenses8_etl)]"
  by (simp add: load_and_clean_def report_files_def etl_eval_defs cv0_def expenses8_def
      expenses8_etl_def)

text \<open>
  C8, amended: after normalization every value of a converted column
  (\<^verbatim>\<open>budget_aed\<close>, \<^verbatim>\<open>completion_percentage\<close>, \<^verbatim>\<open>amount_aed\<close>, \<^verbatim>\<open>salary_aed\<close>) is present; a
  number of the input is the same number in the output, a text that reads as a number
  is that number, a missing or unparseable input is zero; and the value is non-negative
  exactly when the input is not a negative number and does not read as one: negative
  inputs stay negative. \<^verbatim>\<open>hours_logged\<close> is not converted.
\<close>

theorem C8_values_kept:
  "(etl_process cv ds = Inr ds' \<and> (n, c) \<in> set etl_numeric_cols \<and> map_of ds n = Some d
      \<longrightarrow> (\<exists>d'. map_of ds' n = Some d'
              \<and> list_all2 (normalized cv) (col_cells d c) (col_cells d' c)))
   \<and> (load_and_clean cv files = Inr ds' \<and> (n, c) \<in> set report_numeric_cols
        \<and> (n, f) \<in> set report_files \<and> files f = Some d
      \<longrightarrow> (\<exists>d'. map_of ds' n = Some d'
              \<and> list_all2 (normalized cv) (col_cells d c) (col_cells d' c)))"
proof (intro conjI impI)
  assume "etl_process cv ds = Inr ds' \<and> (n, c) \<in> set etl_numeric_cols \<and> map_of ds n = Some d"
  then obtain d' where "map_of ds' n = Some d'"
    "col_cells d' c = map (numeric_cell cv) (col_cells d c)"
    using etl_numeric_effect [of cv ds ds' n c d] by blast
  then show "\<exists>d'. map_of ds' n = Some d'
               \<and> list_all2 (normalized cv) (col_cells d c) (col_cells d' c)"
    by (auto intro: list_all2_map_self normalized_numeric_cell)
next
  assume "load_and_clean cv files = Inr ds' \<and> (n, c) \<in> set report_numeric_cols
            \<and> (n, f) \<in> set report_files \<and> files f = Some d"
  then obtain d' where "map_of ds' n = Some d'"
    "col_cells d' c = map (numeric_cell cv) (col_cells d c)"
    using report_numeric_effect [of cv files ds' n c f d] by blast
  then show "\<exists>d'. map_of ds' n = Some d'
               \<and> list_all2 (normalized cv) (col_cells d c) (col_cells d' c)"
    by (auto intro: list_all2_map_self normalized_numeric_cell)
qed

theorem C8_values_kept_witness:
  "etl_process cv0 [(''expenses'', expenses8)] = Inr [(''expenses'', expenses8_etl)]
   \<and> (''expenses'', ''amount_aed'') \<in> set etl_numeric_cols
   \<and> list_all2 (normalized cv0)
        (col_cells expenses8 ''amount_aed'') (col_cells expenses8_etl ''amount_aed'')
   \<and> col_cells expenses8 ''amount_aed'' = [Str ''-75'', Str ''n/a'', NaN, Num 12]
   \<and> col_cells expenses8_etl ''amount_aed'' = [Num (- 75), Num 0, Num 0, Num 12]
   \<and> load_and_clean cv0 (map_of [(''expenses.csv'', expenses8)]) = Inr [(''expenses'', expenses8_etl)]
   \<and> (''expenses'', ''amount_aed'') \<in> set report_numeric_cols
   \<and> (''expenses'', ''expenses.csv'') \<in> set report_files"
proof -
  have 1: "(''expenses'', ''amount_aed'') \<in> set etl_numeric_cols"
    by (simp add: etl_numeric_cols_def)
  have 2: "(''expenses'', ''amount_aed'') \<in> set report_numeric_cols"
    by (simp add: report_numeric_cols_def)
  have 3: "(''expenses'', ''expenses.csv'') \<in> set report_files"
    by (simp add: report_files_def)
  have 4: "col_cells expenses8 ''amount_aed'' = [Str ''-75'', Str ''n/a'', NaN, Num 12]"
    "col_cells expenses8_etl ''amount_aed'' = [Num (- 75), Num 0, Num 0, Num 12]"
    by (simp_all add: col_cells_def cell_of_def expenses8_def expenses8_etl_def)
  have "list_all2 (normalized cv0)
          (col_cells expenses8 ''amount_aed'') (col_cells expenses8_etl ''amount_aed'')"
    using C8_values_kept [of cv0 "[(''expenses'', expenses8)]" "[(''expenses'', expenses8_etl)]"
        "''expenses''" "''amount_aed''" expenses8]
      etl_expenses8 1 by simp
  then show ?thesis
    using etl_expenses8 load_and_clean_expenses8 1 2 3 4 by simp
qed

section \<open>Group sums: the partition law\<close>

text \<open>\<^verbatim>\<open>df.dropna(subset=[key])\<close>: the rows whose key is present.\<close>

definition dropna :: "string \<Rightarrow> df \<Rightarrow> df" where
  "dropna key d = d\<lparr>rows := filter (\<lambda>r. \<not> isna (cell_of r key)) (rows d)\<rparr>"

text \<open>
  The sums of the scripts are machine sums, computed inside the library: a sum of
  \<^verbatim>\<open>float64\<close> values rounds after every addition, so that its value depends on the order
  of the additions, a sum of \<^verbatim>\<open>int64\<close> values wraps around, and a sum of texts is their
  concatenation. For these no partition law holds. The machine sums are exact, in every
  order of the additions, on a column of whole numbers and missing values whose
  absolute values add up to at most \<open>2\<^sup>5\<^sup>3\<close>: every partial sum is a whole number of at
  most this size, which both number types represent. This much is asked of the library:
  on such a column, \<^verbatim>\<open>sum()\<close> of a series and of a group is the exact sum of the values
  that are present.
\<close>

fun whole :: "cell \<Rightarrow> bool" where
  "whole (Num r) = (of_int \<lfloor>r\<rfloor> = r)"
| "whole NaN = True"
| "whole _ = False"

fun magnitude :: "cell \<Rightarrow> rat" where
  "magnitude (Num r) = \<bar>r\<bar>"
| "magnitude _ = 0"

fun amount :: "cell \<Rightarrow> rat" where
  "amount (Num r) = r"
| "amount _ = 0"

definition exact_range :: "cell list \<Rightarrow> bool" where
  "exact_range s = (list_all whole s \<and> sum_list (map magnitude s) \<le> 2 ^ 53)"

definition exact_sums :: "conv \<Rightarrow> bool" where
  "exact_sums cv =
     (\<forall>s. exact_range s \<longrightarrow>
        series_sum cv s = Inr (Num (sum_list (map amount s)))
        \<and> group_sum_of cv s = Inr (Num (sum_list (map amount s))))"

text \<open>The sum of the per-group sums.\<close>

definition sum_of_groups :: "(cell \<times> cell) list \<Rightarrow> rat" where
  "sum_of_groups gs = sum_list (map (\<lambda>(g, s). amount s) gs)"

fun is_num :: "cell \<Rightarrow> bool" where
  "is_num (Num r) = True"
| "is_num _ = False"

lemma magnitude_nonneg: "0 \<le> magnitude c"
  by (cases c) simp_all

lemma sum_magnitude_nonneg: "0 \<le> sum_list (map magnitude s)"
  by (induction s) (simp_all add: magnitude_nonneg)

lemma exact_range_zip_filter:
  "exact_range vs \<Longrightarrow> exact_range (map snd (filter Q (zip ks vs)))"
proof -
  have "list_all whole vs \<Longrightarrow> list_all whole (map snd (filter Q (zip ks vs)))"
    by (auto simp: list_all_iff dest: set_zip_rightD)
  moreover have "sum_list (map magnitude (map snd (filter Q (zip ks vs))))
                   \<le> sum_list (map magnitude vs)"
  proof (induction vs arbitrary: ks)
    case Nil
    then show ?case by simp
  next
    case (Cons v vs)
    show ?case
    proof (cases ks)
      case Nil
      then show ?thesis
        using sum_magnitude_nonneg [of "v # vs"] by simp
    next
      case (Cons k ks')
      then show ?thesis
        using Cons.IH [of ks'] magnitude_nonneg [of v] by auto
    qed
  qed
  ultimately show "exact_range vs \<Longrightarrow> exact_range (map snd (filter Q (zip ks vs)))"
    by (auto simp: exact_range_def)
qed

lemma collect_map_Inr: "(\<And>x. x \<in> set xs \<Longrightarrow> f x = Inr (h x)) \<Longrightarrow> collect (map f xs) = Inr (map h xs)"
  by (induction xs) simp_all

lemma sum_list_pick_none: "k \<notin> set G \<Longrightarrow> (\<Sum>g\<leftarrow>G. if k = g then a else 0) = (0::rat)"
  by (induction G) auto

lemma sum_list_pick:
  "distinct G \<Longrightarrow> k \<in> set G \<Longrightarrow> (\<Sum>g\<leftarrow>G. if k = g then a else 0) = (a::rat)"
  by (induction G) (auto simp: sum_list_pick_none)

lemma partition_sum:
  fixes ps :: "('k \<times> cell) list"
  assumes "distinct G" "fst ` set ps \<subseteq> set G"
  shows "(\<Sum>g\<leftarrow>G. sum_list (map amount (map snd (filter (\<lambda>(k, v). k = g) ps))))
           = sum_list (map amount (map snd ps))"
  using assms(2)
proof (induction ps)
  case Nil
  then show ?case by simp
next
  case (Cons p ps)
  obtain k v where p: "p = (k, v)" by (cases p)
  from Cons.prems have k: "k \<in> set G" and sub: "fst ` set ps \<subseteq> set G" by (auto simp: p)
  have "(\<Sum>g\<leftarrow>G. sum_list (map amount (map snd (filter (\<lambda>(k, v). k = g) (p # ps)))))
          = (\<Sum>g\<leftarrow>G. (if k = g then amount v else 0)
                      + sum_list (map amount (map snd (filter (\<lambda>(k, v). k = g) ps))))"
    by (rule arg_cong [where f = sum_list]) (auto simp: p)
  also have "\<dots> = (\<Sum>g\<leftarrow>G. if k = g then amount v else 0)
                      + (\<Sum>g\<leftarrow>G. sum_list (map amount (map snd (filter (\<lambda>(k, v). k = g) ps))))"
    by (simp only: sum_list_addf)
  also have "\<dots> = amount v + sum_list (map amount (map snd ps))"
    by (simp only: sum_list_pick [OF assms(1) k] Cons.IH [OF sub])
  finally show ?case by (simp add: p)
qed

lemma sum_list_sort_key:
  fixes f :: "'a \<Rightarrow> rat"
  shows "sum_list (map f (sort_key h xs)) = sum_list (map f xs)"
proof -
  have "mset (map f (sort_key h xs)) = mset (map f xs)" by simp
  then have "sum_mset (mset (map f (sort_key h xs))) = sum_mset (mset (map f xs))" by simp
  then show ?thesis by (simp only: sum_mset_sum_list)
qed

lemma zip_map_same: "zip (map f xs) (map g xs) = map (\<lambda>x. (f x, g x)) xs"
  by (induction xs) simp_all

lemma dropna_id: "list_all (\<lambda>r. \<not> isna (cell_of r key)) (rows d) \<Longrightarrow> dropna key d = d"
  by (simp add: dropna_def list_all_iff)

lemma group_sum_exact:
  assumes lib: "exact_sums cv"
    and key: "key \<in> set (columns d)" and val: "val \<in> set (columns d)"
    and rng: "exact_range (col_cells d val)"
  shows "\<exists>gs. group_sum cv key val d = Inr gs \<and> distinct (map fst gs)
           \<and> list_all (\<lambda>(g, s). is_num s) gs
           \<and> column_total cv (dropna key d) val = Inr (Num (sum_of_groups gs))"
proof -
  let ?k = "\<lambda>r. cell_of r key" and ?v = "\<lambda>r. cell_of r val"
  define present where
    "present = filter (\<lambda>(k, v). \<not> isna k) (zip (map ?k (rows d)) (map ?v (rows d)))"
  define G where "G = sort_key cell_rank (remdups (map fst present))"
  define vals where "vals = (\<lambda>g. map snd (filter (\<lambda>(k, v). k = g) present))"
  define gs where "gs = map (\<lambda>g. (g, Num (sum_list (map amount (vals g))))) G"
  have rng': "exact_range (map ?v (rows d))" using rng by (simp add: col_cells_def)
  have pres: "exact_range (map snd present)"
    unfolding present_def by (rule exact_range_zip_filter [OF rng'])
  have "exact_range (vals g)" for g
  proof -
    have "vals g = map snd (filter (\<lambda>(k, v). k = g \<and> \<not> isna k)
                              (zip (map ?k (rows d)) (map ?v (rows d))))"
      by (simp add: vals_def present_def split_def conj_commute)
    then show ?thesis using exact_range_zip_filter [OF rng'] by simp
  qed
  with lib have agg: "group_sum_of cv (vals g) = Inr (Num (sum_list (map amount (vals g))))" for g
    by (simp add: exact_sums_def)
  have "group_sum cv key val d
          = collect (map (\<lambda>g. bind (group_sum_of cv (vals g)) (\<lambda>s. Inr (g, s))) G)"
    using key val
    by (simp add: group_sum_def group_agg_def get_col_def present_def G_def vals_def Let_def)
  also have "\<dots> = Inr gs"
    unfolding gs_def by (rule collect_map_Inr) (simp add: agg)
  finally have 1: "group_sum cv key val d = Inr gs" .
  have 2: "distinct (map fst gs)" by (simp add: gs_def comp_def G_def)
  have 3: "list_all (\<lambda>(g, s). is_num s) gs" by (simp add: gs_def list_all_iff)
  have "sum_of_groups gs = (\<Sum>g\<leftarrow>G. sum_list (map amount (vals g)))"
    by (simp add: sum_of_groups_def gs_def comp_def)
  also have "\<dots> = (\<Sum>g\<leftarrow>remdups (map fst present). sum_list (map amount (vals g)))"
    by (simp add: G_def sum_list_sort_key)
  also have "\<dots> = sum_list (map amount (map snd present))"
    unfolding vals_def by (rule partition_sum) auto
  finally have total: "sum_of_groups gs = sum_list (map amount (map snd present))" .
  have cells: "map snd present = col_cells (dropna key d) val"
    by (simp add: present_def zip_map_same filter_map comp_def col_cells_def dropna_def)
  from pres lib have "series_sum cv (map snd present)
                        = Inr (Num (sum_list (map amount (map snd present))))"
    by (simp add: exact_sums_def)
  then have 4: "column_total cv (dropna key d) val = Inr (Num (sum_of_groups gs))"
    using val by (simp add: column_total_def get_col_def total cells [unfolded col_cells_def] dropna_def)
  from 1 2 3 4 show ?thesis by blast
qed

lemma sum_cell_whole: "whole c \<Longrightarrow> sum_cell c = Inr (amount c)"
  by (cases c) simp_all

lemma exact_sum_whole: "list_all whole s \<Longrightarrow> exact_sum s = Inr (Num (sum_list (map amount s)))"
proof -
  assume "list_all whole s"
  then have "collect (map sum_cell s) = Inr (map amount s)"
    by (intro collect_map_Inr) (simp add: list_all_iff sum_cell_whole)
  then show ?thesis by (simp add: exact_sum_def)
qed

lemma exact_sums_cv0: "exact_sums cv0"
  by (simp add: exact_sums_def exact_range_def cv0_def exact_sum_whole)

text \<open>The example of the specification, and the same table with a row whose group is missing.\<close>

definition gv :: df where
  "gv = \<lparr> columns = [''g'', ''v''],
          rows = [[(''g'', Str ''A''), (''v'', Num 10)],
                  [(''g'', Str ''A''), (''v'', Num 5)],
                  [(''g'', Str ''B''), (''v'', Num 7)]] \<rparr>"

definition gv_na :: df where
  "gv_na = \<lparr> columns = [''g'', ''v''],
             rows = [[(''g'', Str ''A''), (''v'', Num 10)],
                     [(''g'', Str ''A''), (''v'', Num 5)],
                     [(''g'', Str ''B''), (''v'', Num 7)],
                     [(''g'', NaN), (''v'', Num 3)]] \<rparr>"

lemmas agg_eval_defs =
  group_sum_def group_mean_def group_agg_def column_total_def column_mean_def get_col_def
  cell_of_def cv0_def exact_sum_def exact_mean_def

subsection \<open>Claim C9\<close>

text \<open>
  C9 as stated: the per-group sums add up to the sum of the value column over the whole
  table. \<^verbatim>\<open>groupby\<close> leaves a row with a missing group key out of every group: with such a
  row the group sums are A: 15 and B: 7, which add up to 22, and the column total is 25.
\<close>

theorem C9_counterexample:
  "group_sum cv0 ''g'' ''v'' gv_na = Inr [(Str ''A'', Num 15), (Str ''B'', Num 7)]
   \<and> sum_of_groups [(Str ''A'', Num 15), (Str ''B'', Num 7)] = 22
   \<and> column_total cv0 gv_na ''v'' = Inr (Num 25)"
  by (simp add: agg_eval_defs gv_na_def sum_of_groups_def)

text \<open>
  C9, amended: for a table that has the key and the value column, with a value column
  of whole numbers and missing values whose absolute values add up to at most
  \<open>2\<^sup>5\<^sup>3\<close>, and a library whose sums are exact on such columns, the group-sum
  aggregation returns, each group is listed once with a number, and the per-group sums
  add up to the sum of the value column over the rows whose group key is present; when
  no row lacks its key this is the sum over the whole table.
\<close>

theorem C9_partition_law:
  assumes "exact_sums cv" "key \<in> set (columns d)" "val \<in> set (columns d)"
    "exact_range (col_cells d val)"
  shows "\<exists>gs. group_sum cv key val d = Inr gs
           \<and> distinct (map fst gs)
           \<and> list_all (\<lambda>(g, s). is_num s) gs
           \<and> column_total cv (dropna key d) val = Inr (Num (sum_of_groups gs))
           \<and> (list_all (\<lambda>r. \<not> isna (cell_of r key)) (rows d)
                \<longrightarrow> column_total cv d val = Inr (Num (sum_of_groups gs)))"
proof -
  from group_sum_exact [OF assms] obtain gs where
    gs: "group_sum cv key val d = Inr gs" "distinct (map fst gs)"
      "list_all (\<lambda>(g, s). is_num s) gs"
      "column_total cv (dropna key d) val = Inr (Num (sum_of_groups gs))"
    by blast
  then have "list_all (\<lambda>r. \<not> isna (cell_of r key)) (rows d)
               \<longrightarrow> column_total cv d val = Inr (Num (sum_of_groups gs))"
    by (auto simp: dropna_id)
  with gs show ?thesis by blast
qed

theorem C9_partition_law_witness:
  "exact_sums cv0
   \<and> exact_range (col_cells gv ''v'')
   \<and> group_sum cv0 ''g'' ''v'' gv = Inr [(Str ''A'', Num 15), (Str ''B'', Num 7)]
   \<and> list_all (\<lambda>r. \<not> isna (cell_of r ''g'')) (rows gv)
   \<and> column_total cv0 gv ''v'' = Inr (Num 22)
   \<and> sum_of_groups [(Str ''A'', Num 15), (Str ''B'', Num 7)] = 22"
proof -
  have 1: "group_sum cv0 ''g'' ''v'' gv = Inr [(Str ''A'', Num 15), (Str ''B'', Num 7)]"
    by (simp add: agg_eval_defs gv_def)
  have 2: "list_all (\<lambda>r. \<not> isna (cell_of r ''g'')) (rows gv)"
    by (simp add: gv_def cell_of_def)
  have 3: "exact_range (col_cells gv ''v'')"
    by (simp add: exact_range_def col_cells_def cell_of_def gv_def)
  have 4: "''g'' \<in> set (columns gv)" "''v'' \<in> set (columns gv)"
    by (simp_all add: gv_def)
  have 5: "sum_of_groups [(Str ''A'', Num 15), (Str ''B'', Num 7)] = 22"
    by (simp add: sum_of_groups_def)
  from C9_partition_law [OF exact_sums_cv0 4 3] 1 2 5
  have "column_total cv0 gv ''v'' = Inr (Num 22)" by auto
  with exact_sums_cv0 1 2 3 5 show ?thesis by simp
qed


end
